theory Spec2Isabelle
  imports Main "HOL-Library.Sublist"
begin

section \<open>Python strings\<close>

text \<open>
  A Python \<^verbatim>\<open>str\<close> is modelled as a \<^typ>\<open>string\<close>, one \<^typ>\<open>char\<close> per character:
  the texts of the model are those of characters with code points below 256. The
  functions below are the string methods the modelled code calls.
\<close>

text \<open>\<^verbatim>\<open>str.lower()\<close>, character by character: the letters \<^verbatim>\<open>A\<close> .. \<^verbatim>\<open>Z\<close> and the thirty
  capital letters between \<open>0xC0\<close> and \<open>0xDE\<close> (all of that range but the multiplication
  sign \<open>0xD7\<close>) go to the character 32 places up; every other character below 256 is
  left as it is.\<close>

definition upper_letters :: string where
  "upper_letters = ''ABCDEFGHIJKLMNOPQRSTUVWXYZ'' @ [
      CHR 0xC0, CHR 0xC1, CHR 0xC2, CHR 0xC3, CHR 0xC4, CHR 0xC5, CHR 0xC6, CHR 0xC7,
      CHR 0xC8, CHR 0xC9, CHR 0xCA, CHR 0xCB, CHR 0xCC, CHR 0xCD, CHR 0xCE, CHR 0xCF,
      CHR 0xD0, CHR 0xD1, CHR 0xD2, CHR 0xD3, CHR 0xD4, CHR 0xD5, CHR 0xD6, CHR 0xD8,
      CHR 0xD9, CHR 0xDA, CHR 0xDB, CHR 0xDC, CHR 0xDD, CHR 0xDE]"

definition lower_letters :: string where
  "lower_letters = ''abcdefghijklmnopqrstuvwxyz'' @ [
      CHR 0xE0, CHR 0xE1, CHR 0xE2, CHR 0xE3, CHR 0xE4, CHR 0xE5, CHR 0xE6, CHR 0xE7,
      CHR 0xE8, CHR 0xE9, CHR 0xEA, CHR 0xEB, CHR 0xEC, CHR 0xED, CHR 0xEE, CHR 0xEF,
      CHR 0xF0, CHR 0xF1, CHR 0xF2, CHR 0xF3, CHR 0xF4, CHR 0xF5, CHR 0xF6, CHR 0xF8,
      CHR 0xF9, CHR 0xFA, CHR 0xFB, CHR 0xFC, CHR 0xFD, CHR 0xFE]"

definition lower_char :: "char \<Rightarrow> char" where
  "lower_char c =
     (case map_of (zip upper_letters lower_letters) c of
        Some l \<Rightarrow> l
      | None \<Rightarrow> c)"

definition py_lower :: "string \<Rightarrow> string" where
  "py_lower s = map lower_char s"

text \<open>\<^verbatim>\<open>s.startswith(p)\<close>.\<close>

fun py_startswith :: "string \<Rightarrow> string \<Rightarrow> bool" where
  "py_startswith s [] = True"
| "py_startswith [] (p # ps) = False"
| "py_startswith (c # cs) (p # ps) = (c = p \<and> py_startswith cs ps)"

lemma py_startswith_iff: "py_startswith s p \<longleftrightarrow> (\<exists>r. s = p @ r)"
  by (induction s p rule: py_startswith.induct) auto

text \<open>\<^verbatim>\<open>sub in s\<close>: the substring test, scanning \<open>s\<close> from the left.\<close>

fun py_in :: "string \<Rightarrow> string \<Rightarrow> bool" where
  "py_in sub [] = (sub = [])"
| "py_in sub (c # cs) = (py_startswith (c # cs) sub \<or> py_in sub cs)"

text \<open>\<^verbatim>\<open>sep.join(xs)\<close>.\<close>

fun py_join :: "string \<Rightarrow> string list \<Rightarrow> string" where
  "py_join sep [] = []"
| "py_join sep [x] = x"
| "py_join sep (x # y # ys) = x @ sep @ py_join sep (y # ys)"

text \<open>The characters \<^verbatim>\<open>str.isspace()\<close> accepts, which are also those \<^verbatim>\<open>str.strip()\<close>
  removes and the regular expression \<^verbatim>\<open>\s\<close> matches on a \<^verbatim>\<open>str\<close>.\<close>

definition is_space :: "char \<Rightarrow> bool" where
  "is_space c \<longleftrightarrow>
     c \<in> set [CHR 0x09, CHR 0x0A, CHR 0x0B, CHR 0x0C, CHR 0x0D, CHR 0x1C, CHR 0x1D, CHR 0x1E,
              CHR 0x1F, CHR '' '', CHR 0x85, CHR 0xA0]"

text \<open>\<^verbatim>\<open>s.strip()\<close>.\<close>

definition py_strip :: "string \<Rightarrow> string" where
  "py_strip s = rev (dropWhile is_space (rev (dropWhile is_space s)))"

text \<open>The first occurrence of \<open>sub\<close> in \<open>s\<close>, as \<^verbatim>\<open>s.find(sub)\<close> locates it: what stands
  before it and what follows it, or \<open>None\<close> when there is none.\<close>

fun split_first :: "string \<Rightarrow> string \<Rightarrow> (string \<times> string) option" where
  "split_first sub [] = (if sub = [] then Some ([], []) else None)"
| "split_first sub (c # cs) =
     (if py_startswith (c # cs) sub then Some ([], drop (length sub) (c # cs))
      else map_option (\<lambda>(front, back). (c # front, back)) (split_first sub cs))"

text \<open>\<^verbatim>\<open>s.endswith(suffix)\<close>.\<close>

definition py_endswith :: "string \<Rightarrow> string \<Rightarrow> bool" where
  "py_endswith s ending = py_startswith (rev s) (rev ending)"

text \<open>\<^verbatim>\<open>s.split(sep)\<close> for a separator of one character: there is always a first piece,
  and the text after the last separator is the last piece, empty or not.\<close>

fun split_char :: "char \<Rightarrow> string \<Rightarrow> string list" where
  "split_char sep [] = [[]]"
| "split_char sep (c # cs) =
     (if c = sep then [] # split_char sep cs
      else (case split_char sep cs of
              [] \<Rightarrow> [[c]]
            | piece # pieces \<Rightarrow> (c # piece) # pieces))"

text \<open>\<^verbatim>\<open>xs[:n]\<close> and \<^verbatim>\<open>xs[n:]\<close> for a Python integer \<open>n\<close>: a negative bound counts from
  the end.\<close>

definition py_take :: "int \<Rightarrow> 'a list \<Rightarrow> 'a list" where
  "py_take n xs = (if 0 \<le> n then take (nat n) xs else take (length xs - nat (- n)) xs)"

definition py_drop :: "int \<Rightarrow> 'a list \<Rightarrow> 'a list" where
  "py_drop n xs = (if 0 \<le> n then drop (nat n) xs else drop (length xs - nat (- n)) xs)"

text \<open>\<^verbatim>\<open>str(n)\<close> for a number that is not negative, in decimal.\<close>

definition digit_char :: "nat \<Rightarrow> char" where
  "digit_char d = ''0123456789'' ! d"

function str_nat :: "nat \<Rightarrow> string" where
  "str_nat n = (if n < 10 then [digit_char n] else str_nat (n div 10) @ [digit_char (n mod 10)])"
  by pat_completeness auto
termination
  by (relation "measure id") auto

definition str_int :: "int \<Rightarrow> string" where
  "str_int i = (if 0 \<le> i then str_nat (nat i) else CHR ''-'' # str_nat (nat (- i)))"

text \<open>\<^verbatim>\<open>s.replace(old, new)\<close> for a non-empty \<open>old\<close>: the occurrences are replaced from the
  left, and the search goes on after each one. (With an empty \<open>old\<close> Python would insert
  \<open>new\<close> around every character; the code never does that, and the model then returns
  \<open>s\<close>.)\<close>

function py_replace :: "string \<Rightarrow> string \<Rightarrow> string \<Rightarrow> string" where
  "py_replace old new [] = []"
| "py_replace old new (c # cs) =
     (if old \<noteq> [] \<and> py_startswith (c # cs) old
      then new @ py_replace old new (drop (length old) (c # cs))
      else c # py_replace old new cs)"
  by pat_completeness auto
termination
  by (relation "measure (\<lambda>(old, new, s). length s)") auto

abbreviation nl :: string where
  "nl \<equiv> [CHR 0x0A]"

section \<open>The multi-agent chat agent: strategy label\<close>

definition research_keywords :: "string list" where
  "research_keywords =
     [''research'', ''find'', ''search'', ''information'', ''facts'', ''data'', ''study'',
      ''investigate'']"

definition analysis_keywords :: "string list" where
  "analysis_keywords =
     [''analyze'', ''calculate'', ''solve'', ''problem'', ''math'', ''statistics'', ''logic'',
      ''reasoning'']"

definition creative_keywords :: "string list" where
  "creative_keywords =
     [''create'', ''write'', ''story'', ''creative'', ''brainstorm'', ''innovative'', ''design'',
      ''imagine'']"

text \<open>\<^verbatim>\<open>any(keyword in query_lower for keyword in keywords)\<close>.\<close>

definition any_keyword_in :: "string list \<Rightarrow> string \<Rightarrow> bool" where
  "any_keyword_in keywords query_lower = list_ex (\<lambda>keyword. py_in keyword query_lower) keywords"

text \<open>\<^verbatim>\<open>StrandsMultiAgentChatAgent._determine_agent_strategy\<close>: the list
  \<open>agents_needed\<close> is grown by one append per matching category, in the order of the
  three \<^verbatim>\<open>if\<close> statements, gets the default when it is still empty, and is joined.\<close>

definition determine_agent_strategy :: "string \<Rightarrow> string" where
  "determine_agent_strategy query =
     (let query_lower = py_lower query;
          agents_needed0 = [];
          agents_needed1 = (if any_keyword_in research_keywords query_lower
                            then agents_needed0 @ [''research''] else agents_needed0);
          agents_needed2 = (if any_keyword_in analysis_keywords query_lower
                            then agents_needed1 @ [''analysis''] else agents_needed1);
          agents_needed3 = (if any_keyword_in creative_keywords query_lower
                            then agents_needed2 @ [''creative''] else agents_needed2);
          agents_needed4 = (if agents_needed3 = []
                            then agents_needed3 @ [''coordinator''] else agents_needed3)
      in py_join '', '' agents_needed4)"

text \<open>The claim's reading of the result: the categories in their fixed order, each with
  its keyword list, and the labels of those with a keyword occurring in the lowercased
  query.\<close>

definition strategy_categories :: "(string \<times> string list) list" where
  "strategy_categories =
     [(''research'', research_keywords), (''analysis'', analysis_keywords),
      (''creative'', creative_keywords)]"

definition occurs_in :: "string \<Rightarrow> string \<Rightarrow> bool" where
  "occurs_in k s = (\<exists>before after. s = before @ k @ after)"

definition matched_labels :: "string \<Rightarrow> string list" where
  "matched_labels query =
     map fst (filter (\<lambda>(label, keywords). \<exists>k \<in> set keywords. occurs_in k (py_lower query))
                strategy_categories)"

section \<open>Requests, responses and streaming events\<close>

text \<open>An exception that is an instance of \<^verbatim>\<open>Exception\<close>: \<open>ValueError\<close> as the code
  raises it, and any other one a collaborator raises, each with the text \<^verbatim>\<open>str(e)\<close>
  gives.\<close>

datatype py_exception = ValueError string | OtherException string

fun exception_str :: "py_exception \<Rightarrow> string" where
  "exception_str (ValueError msg) = msg"
| "exception_str (OtherException msg) = msg"

text \<open>Modelled from the spec: the classes of \<^verbatim>\<open>agentic_platform.core.models\<close> are not
  among the sources. A message has a role and a list of typed content blocks; a request
  carries a message, an optional session identifier and an optional streaming flag; a
  response wraps a message, a session identifier and free-form metadata.\<close>

datatype content_block = TextContent string | OtherContent string

record message =
  role :: string
  content :: "content_block list"

record agentic_request =
  req_message :: message
  req_session_id :: "string option"
  req_stream :: "bool option"

datatype meta_value = MetaStr string | MetaList "string list"

record agentic_response =
  resp_message :: message
  resp_session_id :: "string option"
  resp_metadata :: "(string \<times> meta_value) list option"

text \<open>Modelled from the spec: \<^verbatim>\<open>Message.get_text_content()\<close> is not among the sources. It
  gives the text content block callers consume: the first one of the message, or
  \<^verbatim>\<open>None\<close>. The model returns its text.\<close>

fun first_text :: "content_block list \<Rightarrow> string option" where
  "first_text [] = None"
| "first_text (TextContent t # bs) = Some t"
| "first_text (OtherContent x # bs) = first_text bs"

definition get_text_content :: "message \<Rightarrow> string option" where
  "get_text_content m = first_text (content m)"

text \<open>Modelled from the spec: \<^verbatim>\<open>Message.from_text(role, text)\<close> is not among the sources.
  It builds a message of that role whose content is one text block.\<close>

definition from_text :: "string \<Rightarrow> string \<Rightarrow> message" where
  "from_text r t = \<lparr>role = r, content = [TextContent t]\<rparr>"

text \<open>Modelled from the spec: the streaming event variants (text delta, error,
  completion) of \<^verbatim>\<open>streaming_models\<close>, each carrying its session identifier first.\<close>

datatype stream_event =
    TextDeltaEvent string string
  | ErrorEvent string string
  | CompletionEvent string

text \<open>
  What is raised inside a \<^verbatim>\<open>try\<close> block whose clause is \<^verbatim>\<open>except Exception\<close>: an
  instance of \<^verbatim>\<open>Exception\<close>, which the clause catches, or an exception outside that
  class (\<^verbatim>\<open>asyncio.CancelledError\<close>, \<^verbatim>\<open>GeneratorExit\<close>, \<^verbatim>\<open>KeyboardInterrupt\<close>), given by
  its name, which the clause lets through.
\<close>

datatype raised = ExceptionInstance py_exception | NotAnException string

text \<open>\<^verbatim>\<open>value or fallback\<close> on an optional string: \<^verbatim>\<open>None\<close> and the empty string are
  both false.\<close>

definition py_or :: "string option \<Rightarrow> string \<Rightarrow> string" where
  "py_or v fallback = (case v of None \<Rightarrow> fallback | Some s \<Rightarrow> if s = [] then fallback else s)"

section \<open>The multi-agent chat agent: invoke and invoke_stream\<close>

text \<open>
  The coordinator is the external agent object. \<open>coordinator q\<close> is what the call
  \<^verbatim>\<open>str(self.coordinator(q))\<close> gives: a text, or the exception the call raises. The
  list of queries sent to the coordinator so far is threaded through as \<open>calls\<close>, so
  that a call leaves a trace.
\<close>

definition enhanced_query :: "string \<Rightarrow> string" where
  "enhanced_query query =
     ''[Multi-Agent Strategy: '' @ determine_agent_strategy query @ ''] '' @ query"

definition agent_invoke ::
  "(string \<Rightarrow> py_exception + string) \<Rightarrow> agentic_request \<Rightarrow> string list
     \<Rightarrow> (py_exception + agentic_response) \<times> string list"
where
  "agent_invoke coordinator request calls =
     (case get_text_content (req_message request) of
        None \<Rightarrow> (Inl (ValueError ''No text content found in request message''), calls)
      | Some query \<Rightarrow>
          (let strategy = determine_agent_strategy query;
               calls' = calls @ [enhanced_query query]
           in case coordinator (enhanced_query query) of
                Inl e \<Rightarrow> (Inl e, calls')
              | Inr result \<Rightarrow>
                  (Inr \<lparr>resp_message = \<lparr>role = ''assistant'', content = [TextContent result]\<rparr>,
                        resp_session_id = Some (py_or (req_session_id request) ''default''),
                        resp_metadata = Some
                          [(''agent_type'', MetaStr ''strands_multi_agent_chat''),
                           (''strategy_used'', MetaStr strategy),
                           (''agents_available'',
                              MetaList [''coordinator'', ''research'', ''analysis'', ''creative''])]\<rparr>,
                   calls')))"

text \<open>
  \<open>invoke_stream\<close> is a generator. Its model returns the events the consumer receives, in
  order, the name of the exception that leaves the generator (if one does), and the
  coordinator trace. The streaming converter (not among the sources) is a parameter:
  \<open>new_converter session_id\<close> is the converter object's state and
  \<open>convert_chunks_to_events\<close> gives the events of a chunk and the next state, or what it
  raises. \<open>stream_async q\<close> is the coordinator's stream for \<open>q\<close>: the chunks it delivers
  and what is raised where the loop waits for the next chunk, if anything is (a
  cancellation arrives there as \<^verbatim>\<open>asyncio.CancelledError\<close>).
\<close>

text \<open>
  The \<^verbatim>\<open>try\<close> block of \<open>invoke_stream\<close>, read to its end: the events yielded and the
  exception that propagates. An instance of \<^verbatim>\<open>Exception\<close> is caught and a last
  \<open>ErrorEvent\<close> is yielded; anything else leaves the generator.
\<close>

fun stream_events ::
  "('c \<Rightarrow> 'k \<Rightarrow> raised + stream_event list \<times> 'c) \<Rightarrow> string \<Rightarrow> 'c \<Rightarrow> 'k list
     \<Rightarrow> raised option \<Rightarrow> stream_event list \<times> string option"
where
  "stream_events convert_chunks_to_events session_id converter [] ending =
     (case ending of
        None \<Rightarrow> ([], None)
      | Some (ExceptionInstance e) \<Rightarrow> ([ErrorEvent session_id (exception_str e)], None)
      | Some (NotAnException name) \<Rightarrow> ([], Some name))"
| "stream_events convert_chunks_to_events session_id converter (event # events) ending =
     (case convert_chunks_to_events converter event of
        Inl (ExceptionInstance e) \<Rightarrow> ([ErrorEvent session_id (exception_str e)], None)
      | Inl (NotAnException name) \<Rightarrow> ([], Some name)
      | Inr (platform_events, converter') \<Rightarrow>
          (case stream_events convert_chunks_to_events session_id converter' events ending of
             (later_events, propagated) \<Rightarrow> (platform_events @ later_events, propagated)))"

text \<open>
  The consumer may end the generator early. \<open>thrown = Some (n, name)\<close> says that while
  the generator is suspended at the yield of its event number \<open>n\<close> (counted from 0), the
  exception \<open>name\<close> is thrown in at that yield: \<^verbatim>\<open>GeneratorExit\<close> when the consumer closes
  the generator, or a cancellation. It is not an instance of \<^verbatim>\<open>Exception\<close>, so at none
  of the three yields a clause catches it: the consumer has received the events up to
  that one, and the exception leaves the generator. With \<open>thrown = None\<close> the consumer
  reads the generator to its end.
\<close>

definition deliver ::
  "(nat \<times> string) option \<Rightarrow> stream_event list \<times> string option
     \<Rightarrow> stream_event list \<times> string option"
where
  "deliver thrown run =
     (case thrown of
        None \<Rightarrow> run
      | Some (n, name) \<Rightarrow>
          if n < length (fst run) then (take (Suc n) (fst run), Some name) else run)"

definition invoke_stream ::
  "(string \<Rightarrow> 'c) \<Rightarrow> ('c \<Rightarrow> 'k \<Rightarrow> raised + stream_event list \<times> 'c)
     \<Rightarrow> (string \<Rightarrow> 'k list \<times> raised option) \<Rightarrow> (nat \<times> string) option \<Rightarrow> agentic_request
     \<Rightarrow> string list \<Rightarrow> (stream_event list \<times> string option) \<times> string list"
where
  "invoke_stream new_converter convert_chunks_to_events stream_async thrown request calls =
     (let session_id = py_or (req_session_id request) ''default'';
          converter = new_converter session_id
      in case get_text_content (req_message request) of
           None \<Rightarrow>
             (deliver thrown
                ([ErrorEvent session_id ''No text content found in request message''], None),
              calls)
         | Some query \<Rightarrow>
             (case stream_async (enhanced_query query) of
                (chunks, ending) \<Rightarrow>
                  (deliver thrown
                     (stream_events convert_chunks_to_events session_id converter chunks ending),
                   calls @ [enhanced_query query])))"

text \<open>What is raised first while streaming, by the converter at some chunk or where the
  loop waits for the next chunk, and the events of the chunks converted before it.\<close>

fun streaming_raise ::
  "('c \<Rightarrow> 'k \<Rightarrow> raised + stream_event list \<times> 'c) \<Rightarrow> 'c \<Rightarrow> 'k list \<Rightarrow> raised option
     \<Rightarrow> raised option"
where
  "streaming_raise convert_chunks_to_events converter [] ending = ending"
| "streaming_raise convert_chunks_to_events converter (event # events) ending =
     (case convert_chunks_to_events converter event of
        Inl r \<Rightarrow> Some r
      | Inr (platform_events, converter') \<Rightarrow>
          streaming_raise convert_chunks_to_events converter' events ending)"

fun converted_events ::
  "('c \<Rightarrow> 'k \<Rightarrow> raised + stream_event list \<times> 'c) \<Rightarrow> 'c \<Rightarrow> 'k list \<Rightarrow> stream_event list"
where
  "converted_events convert_chunks_to_events converter [] = []"
| "converted_events convert_chunks_to_events converter (event # events) =
     (case convert_chunks_to_events converter event of
        Inl r \<Rightarrow> []
      | Inr (platform_events, converter') \<Rightarrow>
          platform_events @ converted_events convert_chunks_to_events converter' events)"

section \<open>The multi-agent chat controller\<close>

text \<open>
  The controller's coroutine \<^verbatim>\<open>invoke(request)\<close>. The module-level agent is a parameter:
  \<open>agent request st\<close> is the result of \<^verbatim>\<open>agent.invoke(request)\<close> in state \<open>st\<close> together
  with the state it leaves, for any kind of state an agent may have.
\<close>

definition controller_invoke ::
  "(agentic_request \<Rightarrow> 's \<Rightarrow> (py_exception + agentic_response) \<times> 's) \<Rightarrow> agentic_request \<Rightarrow> 's
     \<Rightarrow> (py_exception + agentic_response) \<times> 's"
where
  "controller_invoke agent request st =
     (if req_stream request = Some True
      then (Inl (ValueError ''Streaming requests should use the /stream endpoint''), st)
      else agent request st)"


section \<open>The LangGraph chat controller\<close>

text \<open>
  \<^verbatim>\<open>ChatController.extract_response\<close>: the search for
  \<^verbatim>\<open><response>(.*?)</response>\<close> (with \<^verbatim>\<open>re.DOTALL\<close>) finds the first opening tag that a
  closing tag follows and, the group being lazy, stops at the first closing tag after
  it. A closing tag that follows a later opening tag follows the first one too, so the
  match starts at the first opening tag or nowhere.
\<close>

definition extract_response :: "string \<Rightarrow> string" where
  "extract_response text =
     (case split_first ''<response>'' text of
        None \<Rightarrow> ''I'm sorry, something went wrong. Please try again.''
      | Some (front, rest) \<Rightarrow>
          (case split_first ''</response>'' rest of
             None \<Rightarrow> ''I'm sorry, something went wrong. Please try again.''
           | Some (group1, back) \<Rightarrow> py_strip group1))"

text \<open>
  \<^verbatim>\<open>ChatController.chat\<close>. The property \<^verbatim>\<open>request.latest_user_text\<close> (of a class that is
  not among the sources) is a parameter, and so is the chat service:
  \<open>run chat_history message\<close> is the text of the message
  \<^verbatim>\<open>chat_service.run(ChatPrompt(inputs))\<close> returns for these two inputs, or the exception
  the call raises. The response is built without a metadata argument.
\<close>

definition chat ::
  "(agentic_request \<Rightarrow> string option) \<Rightarrow> (string \<Rightarrow> string \<Rightarrow> py_exception + string)
     \<Rightarrow> agentic_request \<Rightarrow> py_exception + agentic_response"
where
  "chat latest_user_text run request =
     (let user_text = py_or (latest_user_text request) ''Hello''
      in case run [] user_text of
           Inl e \<Rightarrow> Inl e
         | Inr response_text \<Rightarrow>
             Inr \<lparr>resp_message = from_text ''assistant'' (extract_response response_text),
                  resp_session_id = req_session_id request,
                  resp_metadata = None\<rparr>)"

section \<open>The summary generator: file selection\<close>

text \<open>\<^verbatim>\<open>os.path.basename(path)\<close>: what follows the last slash.\<close>

definition basename :: "string \<Rightarrow> string" where
  "basename path = rev (takeWhile (\<lambda>c. c \<noteq> CHR ''/'') (rev path))"

text \<open>
  The \<^verbatim>\<open>file_selection\<close> section of the configuration dictionary. Every key is read
  with \<^verbatim>\<open>.get(key, default)\<close>, so every field is optional; a configuration without the
  section behaves as one whose section has no key.
\<close>

record file_selection =
  include_patterns :: "string list option"
  exclude_patterns :: "string list option"
  max_notebooks :: "int option"
  max_notebook_cells :: "int option"
  max_python_files :: "int option"
  max_python_lines :: "int option"
  max_markdown_files :: "int option"
  max_yaml_files :: "int option"
  max_yaml_lines :: "int option"
  max_terraform_files :: "int option"
  max_terraform_lines :: "int option"
  max_shell_files :: "int option"
  max_shell_lines :: "int option"
  max_text_files :: "int option"
  max_text_lines :: "int option"

definition no_file_selection :: file_selection where
  "no_file_selection =
     \<lparr>include_patterns = None, exclude_patterns = None, max_notebooks = None,
      max_notebook_cells = None, max_python_files = None, max_python_lines = None,
      max_markdown_files = None, max_yaml_files = None, max_yaml_lines = None,
      max_terraform_files = None, max_terraform_lines = None, max_shell_files = None,
      max_shell_lines = None, max_text_files = None, max_text_lines = None\<rparr>"

text \<open>\<^verbatim>\<open>d.get(key, default)\<close> on an optional field.\<close>

definition get_or :: "'a option \<Rightarrow> 'a \<Rightarrow> 'a" where
  "get_or field dflt = (case field of None \<Rightarrow> dflt | Some v \<Rightarrow> v)"

text \<open>
  The configuration dictionary \<^verbatim>\<open>yaml.safe_load\<close> returns. A value the script reads by
  subscripts (\<^verbatim>\<open>config['output']['file_prefix']\<close>, \<^verbatim>\<open>config['model']['name']\<close>,
  \<^verbatim>\<open>config['inference_config']['temperature']\<close> and the like) is a field that is \<open>None\<close>
  when the key or its section is missing, so that reading it raises \<^verbatim>\<open>KeyError\<close>. The
  sections read with \<^verbatim>\<open>.get\<close> are optional in the same way, and reading them never
  raises. The temperature is kept as the text of its scalar.
\<close>

record config =
  file_selection :: "file_selection option"
  output_file_prefix :: "string option"
  output_directory :: "string option"
  model_id :: "string option"
  model_name :: "string option"
  inference_temperature :: "string option"
  inference_max_tokens :: "int option"
  debug_enabled :: "bool option"
  debug_print_prompt :: "bool option"
  folders_to_analyze :: "string option list option"

text \<open>
  \<^verbatim>\<open>filter_files(files, config)\<close>. The library function \<^verbatim>\<open>fnmatch.fnmatch(name, pattern)\<close>
  is a parameter. The first loop appends a path once, at the first include pattern its
  basename matches; the second loop keeps a path that no exclude pattern matches (by
  path or by basename) and that is not in \<open>important_files\<close>.
\<close>

definition filter_files ::
  "(string \<Rightarrow> string \<Rightarrow> bool) \<Rightarrow> string list \<Rightarrow> config \<Rightarrow> string list \<times> string list"
where
  "filter_files fnmatch files config =
     (let selection = get_or (file_selection config) no_file_selection;
          include_patterns = get_or (include_patterns selection) [];
          exclude_patterns = get_or (exclude_patterns selection) [];
          important_files =
            filter (\<lambda>file_path.
              list_ex (\<lambda>pattern. fnmatch (basename file_path) pattern) include_patterns) files;
          filtered_files =
            filter (\<lambda>file_path.
              let exclude_match =
                    list_ex (\<lambda>pattern. fnmatch file_path pattern
                                        \<or> fnmatch (basename file_path) pattern) exclude_patterns
              in \<not> exclude_match \<and> file_path \<notin> set important_files) files
      in (important_files, filtered_files))"

section \<open>The knowledge-base search tool\<close>

text \<open>
  A retrieval result is a dictionary; the tool reads
  \<^verbatim>\<open>result.get('content', {}).get('text', '')\<close>.
\<close>

datatype kb_result = NoContent | Content "string option"

fun result_text :: "kb_result \<Rightarrow> string" where
  "result_text NoContent = []"
| "result_text (Content None) = []"
| "result_text (Content (Some t)) = t"

text \<open>
  \<^verbatim>\<open>search_knowledge_base(query)\<close>. \<open>knowledge_base_id\<close> is the environment variable read
  when the module is loaded; the client exists exactly when it is set and not empty.
  \<open>retrieve kb_id query\<close> is the outcome of \<^verbatim>\<open>client.retrieve\<close> and of reading the
  response inside the \<^verbatim>\<open>try\<close> block: the list under \<^verbatim>\<open>retrievalResults\<close> (when the key is
  there), or the exception raised on the way.
\<close>

definition search_knowledge_base ::
  "string option \<Rightarrow> (string \<Rightarrow> string \<Rightarrow> py_exception + kb_result list option) \<Rightarrow> string \<Rightarrow> string"
where
  "search_knowledge_base knowledge_base_id retrieve query =
     (case knowledge_base_id of
        None \<Rightarrow>
          ''Mock RAG response for query: '' @ [CHR 0x27] @ query @ [CHR 0x27]
            @ ''. This is a test response since no knowledge base is configured.''
      | Some kb_id \<Rightarrow>
          if kb_id = [] then
            ''Mock RAG response for query: '' @ [CHR 0x27] @ query @ [CHR 0x27]
              @ ''. This is a test response since no knowledge base is configured.''
          else
            (case retrieve kb_id query of
               Inl e \<Rightarrow> ''Error accessing knowledge base: '' @ exception_str e
             | Inr response \<Rightarrow>
                 (let results = filter (\<lambda>text. text \<noteq> []) (map result_text (get_or response []))
                  in if results \<noteq> [] then py_join (nl @ nl) results
                     else ''No relevant information found in the knowledge base.'')))"

section \<open>The summary generator: files\<close>

text \<open>
  The file system, as far as the script reads and writes it: a path is absent, or names
  a file with its text, or names something whose opening or decoding raises.
\<close>

datatype file_node = File string | Unreadable py_exception

type_synonym file_system = "string \<rightharpoonup> file_node"

text \<open>\<^verbatim>\<open>open(path, 'r', encoding='utf-8')\<close> followed by \<^verbatim>\<open>f.read()\<close>.\<close>

definition open_read :: "file_system \<Rightarrow> string \<Rightarrow> py_exception + string" where
  "open_read fs file_path =
     (case fs file_path of
        None \<Rightarrow> Inl (OtherException ''No such file or directory'')
      | Some (Unreadable e) \<Rightarrow> Inl e
      | Some (File text) \<Rightarrow> Inr text)"

definition read_file :: "file_system \<Rightarrow> string \<Rightarrow> string option" where
  "read_file fs file_path =
     (case open_read fs file_path of Inl e \<Rightarrow> None | Inr text \<Rightarrow> Some text)"

text \<open>\<^verbatim>\<open>load_config()\<close>: \<open>yaml_safe_load\<close> is the library's parser, which returns a
  configuration (or \<^verbatim>\<open>None\<close> for an empty document) or raises.\<close>

definition load_config ::
  "file_system \<Rightarrow> (string \<Rightarrow> py_exception + 'c option) \<Rightarrow> string \<Rightarrow> 'c option"
where
  "load_config fs yaml_safe_load config_path =
     (case open_read fs config_path of
        Inl e \<Rightarrow> None
      | Inr text \<Rightarrow> (case yaml_safe_load text of Inl e \<Rightarrow> None | Inr config \<Rightarrow> config))"

text \<open>The truth value of an optional string: \<^verbatim>\<open>None\<close> and \<^verbatim>\<open>''\<close> are false.\<close>

definition truthy :: "string option \<Rightarrow> bool" where
  "truthy v = (case v of None \<Rightarrow> False | Some s \<Rightarrow> s \<noteq> [])"

text \<open>\<^verbatim>\<open>base / name\<close> on paths, for a relative \<open>name\<close>.\<close>

definition path_join :: "string \<Rightarrow> string \<Rightarrow> string" where
  "path_join base name = base @ ''/'' @ name"

text \<open>
  What the script is given from outside: the library functions, the directory walk and
  the hosted endpoint. \<open>env_walk fs directory\<close> is the list \<^verbatim>\<open>list_files\<close> has collected
  from \<^verbatim>\<open>os.walk\<close> when the walk ends or raises; \<open>env_exists fs path\<close> is
  \<^verbatim>\<open>Path.exists()\<close> for a folder; \<open>env_json_loads text\<close> gives the cells of a notebook,
  or the exception \<^verbatim>\<open>json.loads\<close> or the access to \<^verbatim>\<open>cells\<close> raises. \<open>env_client\<close> is
  the exception that creating the session and the client raises, if it raises.
  \<open>env_converse earlier model temperature max_tokens prompt\<close> is the text at
  \<^verbatim>\<open>response["output"]["message"]["content"][0]["text"]\<close> of the endpoint's answer to
  \<open>prompt\<close> after the \<open>earlier\<close> prompts, or the exception raised by the call or by
  that access.
\<close>

datatype cell = MarkdownCell string | CodeCell string | OtherCell | MalformedCell

record environment =
  env_fnmatch :: "string \<Rightarrow> string \<Rightarrow> bool"
  env_walk :: "file_system \<Rightarrow> string \<Rightarrow> string list"
  env_exists :: "file_system \<Rightarrow> string \<Rightarrow> bool"
  env_json_loads :: "string \<Rightarrow> py_exception + cell list"
  env_client :: "py_exception option"
  env_converse :: "string list \<Rightarrow> string \<Rightarrow> string \<Rightarrow> int \<Rightarrow> string \<Rightarrow> py_exception + string"
  env_now :: string
  repo_root :: string

text \<open>\<^verbatim>\<open>ANALYSIS_DIR\<close>, \<^verbatim>\<open>CONFIG_PATH\<close> and \<^verbatim>\<open>PROMPT_TEMPLATE_PATH\<close>.\<close>

definition analysis_dir :: "environment \<Rightarrow> string" where
  "analysis_dir env = path_join (repo_root env) ''my-analysis''"

definition config_path :: "environment \<Rightarrow> string" where
  "config_path env = path_join (analysis_dir env) ''config.yml''"

definition prompt_template_path :: "environment \<Rightarrow> string" where
  "prompt_template_path env = path_join (analysis_dir env) ''prompts.md''"

definition list_files :: "environment \<Rightarrow> file_system \<Rightarrow> string \<Rightarrow> string list" where
  "list_files env fs directory = env_walk env fs directory"

section \<open>The summary generator: folder content\<close>

definition max_tokens :: nat where
  "max_tokens = 190000"

text \<open>The state of the assembly: \<open>content_summary\<close> and \<open>tokens_used\<close>.\<close>

type_synonym assembly = "string \<times> nat"

definition bullets :: "string list \<Rightarrow> string" where
  "bullets names = concat (map (\<lambda>name. ''- '' @ name @ nl) names)"

definition is_other_file :: "string \<Rightarrow> bool" where
  "is_other_file f \<longleftrightarrow>
     \<not> (py_endswith f ''.ipynb'' \<or> py_endswith f ''.py'' \<or> py_endswith f ''.md''
        \<or> py_endswith f ''.yaml'' \<or> py_endswith f ''.yml'' \<or> py_endswith f ''.tf''
        \<or> py_endswith f ''.sh'' \<or> py_endswith f ''.txt'')"

definition is_yaml_file :: "string \<Rightarrow> bool" where
  "is_yaml_file f \<longleftrightarrow> py_endswith f ''.yaml'' \<or> py_endswith f ''.yml''"

text \<open>A listing section: written only for a non-empty category.\<close>

definition listing :: "string \<Rightarrow> string list \<Rightarrow> string" where
  "listing title paths =
     (if paths \<noteq> [] then title @ nl @ bullets (map basename paths) @ nl else [])"

text \<open>
  \<^verbatim>\<open>get_folder_content_summary\<close> up to the line that starts the token count: the title,
  the README, the statistics, the notes on skipped files and the listings.
\<close>

definition summary_head ::
  "string \<Rightarrow> string \<Rightarrow> string list \<Rightarrow> string list \<Rightarrow> string list \<Rightarrow> file_selection \<Rightarrow> string"
where
  "summary_head folder_name readme_content all_files important_files filtered_files selection =
     (let total_files = length all_files;
          max_notebooks = get_or (max_notebooks selection) 1000;
          max_python_files = get_or (max_python_files selection) 1000;
          max_markdown_files = get_or (max_markdown_files selection) 1000;
          selected_files = important_files @ filtered_files;
          notebooks = filter (\<lambda>f. py_endswith f ''.ipynb'') selected_files;
          python_files = filter (\<lambda>f. py_endswith f ''.py'') selected_files;
          markdown_files = filter (\<lambda>f. py_endswith f ''.md'') selected_files;
          yaml_files = filter is_yaml_file selected_files;
          terraform_files = filter (\<lambda>f. py_endswith f ''.tf'') selected_files;
          shell_files = filter (\<lambda>f. py_endswith f ''.sh'') selected_files;
          text_files = filter (\<lambda>f. py_endswith f ''.txt'') selected_files;
          other_files = filter is_other_file selected_files;
          max_yaml_files = get_or (max_yaml_files selection) 1000;
          max_terraform_files = get_or (max_terraform_files selection) 1000;
          max_shell_files = get_or (max_shell_files selection) 1000;
          max_text_files = get_or (max_text_files selection) 1000;
          files_analyzed =
            length (py_take max_notebooks notebooks) + length (py_take max_python_files python_files)
            + length (py_take max_markdown_files markdown_files)
            + length (py_take max_yaml_files yaml_files)
            + length (py_take max_terraform_files terraform_files)
            + length (py_take max_shell_files shell_files)
            + length (py_take max_text_files text_files);
          skipped_files =
            (if int (length notebooks) > max_notebooks
             then map basename (py_drop max_notebooks notebooks) else [])
            @ (if int (length python_files) > max_python_files
               then map basename (py_drop max_python_files python_files) else [])
            @ (if int (length markdown_files) > max_markdown_files
               then map basename (py_drop max_markdown_files markdown_files) else [])
            @ (if int (length yaml_files) > max_yaml_files
               then map basename (py_drop max_yaml_files yaml_files) else [])
      in ''# Folder Content Summary for '' @ folder_name @ nl @ nl
         @ ''## README Content'' @ nl @ nl
         @ readme_content @ nl @ nl
         @ ''## File Statistics'' @ nl @ nl
         @ ''Total files found: '' @ str_nat total_files @ nl
         @ ''Notebooks: '' @ str_nat (length (filter (\<lambda>f. py_endswith f ''.ipynb'') all_files)) @ nl
         @ ''Python files: '' @ str_nat (length (filter (\<lambda>f. py_endswith f ''.py'') all_files)) @ nl
         @ ''Markdown files: '' @ str_nat (length (filter (\<lambda>f. py_endswith f ''.md'') all_files)) @ nl
         @ ''YAML files: '' @ str_nat (length (filter is_yaml_file all_files)) @ nl
         @ ''Terraform files: '' @ str_nat (length (filter (\<lambda>f. py_endswith f ''.tf'') all_files)) @ nl
         @ ''Shell script files: '' @ str_nat (length (filter (\<lambda>f. py_endswith f ''.sh'') all_files)) @ nl
         @ ''Text files: '' @ str_nat (length (filter (\<lambda>f. py_endswith f ''.txt'') all_files)) @ nl
         @ ''Other files: '' @ str_nat (length (filter is_other_file all_files)) @ nl @ nl
         @ (if length important_files > 0
            then ''Important files selected based on patterns: ''
                   @ str_nat (length important_files) @ nl @ nl
            else [])
         @ (if files_analyzed < total_files
            then ''**Note: Analyzing '' @ str_nat files_analyzed @ '' out of ''
                   @ str_nat total_files @ '' files.**'' @ nl @ nl
            else [])
         @ (if skipped_files \<noteq> []
            then ''**Skipped files:**'' @ nl @ bullets (take 20 skipped_files)
                   @ (if length skipped_files > 20
                      then ''- ... and '' @ str_nat (length skipped_files - 20) @ '' more files'' @ nl
                      else [])
                   @ nl
            else [])
         @ ''## Files in the folder'' @ nl @ nl
         @ listing ''### Notebooks'' notebooks
         @ listing ''### Python Files'' python_files
         @ (if markdown_files \<noteq> []
            then ''### Markdown Files'' @ nl
                   @ bullets (filter (\<lambda>md_file. md_file \<noteq> ''README.md'')
                                (map basename markdown_files))
                   @ nl
            else [])
         @ listing ''### YAML Files'' yaml_files
         @ listing ''### Terraform Files'' terraform_files
         @ listing ''### Shell Script Files'' shell_files
         @ listing ''### Text Files'' text_files
         @ (if other_files \<noteq> []
            then ''### Other Files'' @ nl @ bullets (take 20 (map basename other_files))
                   @ (if length other_files > 20
                      then ''- ... and '' @ str_nat (length other_files - 20) @ '' more files'' @ nl
                      else [])
                   @ nl
            else [])
         @ ''## Content of Key Files'' @ nl @ nl)"

text \<open>
  The cells of one notebook, in order, until the budget check stops the loop. A cell
  whose shape makes the loop body raise ends the loop too, with the flag set; the
  caller's \<^verbatim>\<open>except\<close> clause then appends its message.
\<close>

fun add_cells :: "cell list \<Rightarrow> assembly \<Rightarrow> bool \<times> assembly" where
  "add_cells [] acc = (False, acc)"
| "add_cells (MarkdownCell cell_content # cells) (content_summary, tokens_used) =
     (let cell_tokens = length cell_content div 4
      in if tokens_used + cell_tokens > max_tokens
         then (False,
               (content_summary @ ''*Note: Remaining cells omitted due to token limit*'' @ nl @ nl,
                tokens_used))
         else add_cells cells (content_summary @ cell_content @ nl @ nl, tokens_used + cell_tokens))"
| "add_cells (CodeCell cell_content # cells) (content_summary, tokens_used) =
     (let code_block = ''```python'' @ nl @ cell_content @ nl @ ''```'' @ nl @ nl;
          code_tokens = length code_block div 4
      in if tokens_used + code_tokens > max_tokens
         then (False,
               (content_summary @ ''*Note: Remaining cells omitted due to token limit*'' @ nl @ nl,
                tokens_used))
         else add_cells cells (content_summary @ code_block, tokens_used + code_tokens))"
| "add_cells (OtherCell # cells) acc = add_cells cells acc"
| "add_cells (MalformedCell # cells) acc = (True, acc)"

definition add_notebook ::
  "(string \<Rightarrow> py_exception + cell list) \<Rightarrow> file_system \<Rightarrow> int \<Rightarrow> assembly \<Rightarrow> string \<Rightarrow> assembly"
where
  "add_notebook json_loads fs max_cells acc notebook_path =
     (case acc of (content_summary, tokens_used) \<Rightarrow>
        (case read_file fs notebook_path of
           None \<Rightarrow> acc
         | Some notebook_content \<Rightarrow>
             if notebook_content = [] then acc
             else
               (let notebook_header = ''### '' @ basename notebook_path @ nl @ nl;
                    content_summary1 = content_summary @ notebook_header;
                    tokens_used1 = tokens_used + length notebook_header div 4;
                    error_msg = ''Could not parse notebook content.'' @ nl @ nl
                in case json_loads notebook_content of
                     Inl e \<Rightarrow> (content_summary1 @ error_msg, tokens_used1 + length error_msg div 4)
                   | Inr cells \<Rightarrow>
                       (let cells_to_include = min max_cells (int (length cells))
                        in case add_cells (py_take cells_to_include cells)
                                  (content_summary1, tokens_used1) of
                             (True, (content_summary2, tokens_used2)) \<Rightarrow>
                               (content_summary2 @ error_msg,
                                tokens_used2 + length error_msg div 4)
                           | (False, acc2) \<Rightarrow> acc2))))"

text \<open>
  The loops over Python, YAML, Terraform, shell and text files are the same code but
  for the fence that opens the block and the note written when the loop stops early.
  The product \<^verbatim>\<open>max_tokens * 0.9\<close> is the float \<open>171000.0\<close>, so the first test is
  \<open>tokens_used > 171000\<close>.
\<close>

fun add_code_files ::
  "string \<Rightarrow> string \<Rightarrow> file_system \<Rightarrow> int \<Rightarrow> string list \<Rightarrow> assembly \<Rightarrow> assembly"
where
  "add_code_files fence limit_note fs max_lines [] acc = acc"
| "add_code_files fence limit_note fs max_lines (path # paths) (content_summary, tokens_used) =
     (if tokens_used > 171000 then (content_summary @ limit_note @ nl @ nl, tokens_used)
      else
        (case read_file fs path of
           None \<Rightarrow> add_code_files fence limit_note fs max_lines paths (content_summary, tokens_used)
         | Some file_content \<Rightarrow>
             if file_content = []
             then add_code_files fence limit_note fs max_lines paths (content_summary, tokens_used)
             else
               (let file_header = ''### '' @ basename path @ nl @ nl;
                    content_summary1 = content_summary @ file_header;
                    tokens_used1 = tokens_used + length file_header div 4;
                    file_lines = split_char (CHR 0x0A) file_content;
                    lines_to_include = min max_lines (int (length file_lines));
                    code_block = fence @ nl @ py_join nl (py_take lines_to_include file_lines)
                                   @ nl @ ''```'' @ nl @ nl;
                    code_tokens = length code_block div 4
                in if tokens_used1 + code_tokens > max_tokens
                   then add_code_files fence limit_note fs max_lines paths
                          (content_summary1 @ ''*Note: File content omitted due to token limit*''
                             @ nl @ nl,
                           tokens_used1)
                   else add_code_files fence limit_note fs max_lines paths
                          (content_summary1 @ code_block, tokens_used1 + code_tokens))))"

text \<open>
  The loop over markdown files. The product \<^verbatim>\<open>max_tokens * 0.95\<close> is the float
  \<open>180500.0\<close>. The file's text is appended as it is.
\<close>

fun add_markdown_files :: "file_system \<Rightarrow> string list \<Rightarrow> assembly \<Rightarrow> assembly" where
  "add_markdown_files fs [] acc = acc"
| "add_markdown_files fs (md_path # paths) (content_summary, tokens_used) =
     (if basename md_path = ''README.md''
      then add_markdown_files fs paths (content_summary, tokens_used)
      else if tokens_used > 180500
      then (content_summary @ ''*Note: Additional markdown files omitted due to token limit*''
              @ nl @ nl,
            tokens_used)
      else
        (case read_file fs md_path of
           None \<Rightarrow> add_markdown_files fs paths (content_summary, tokens_used)
         | Some md_content \<Rightarrow>
             if md_content = [] then add_markdown_files fs paths (content_summary, tokens_used)
             else
               (let file_header = ''### '' @ basename md_path @ nl @ nl
                in add_markdown_files fs paths
                     (content_summary @ file_header @ md_content @ nl @ nl,
                      tokens_used + length file_header div 4 + length md_content div 4))))"

text \<open>
  The second half of \<^verbatim>\<open>get_folder_content_summary\<close>: the contents of the key files are
  appended to \<open>content_summary\<close>, category by category, while \<open>tokens_used\<close> counts a
  quarter of the characters appended. The result is the final pair; the function
  returns its first component.
\<close>

definition key_file_contents ::
  "environment \<Rightarrow> file_system \<Rightarrow> string \<Rightarrow> string list \<Rightarrow> string list \<Rightarrow> file_selection
     \<Rightarrow> assembly"
where
  "key_file_contents env fs content_summary important_files filtered_files selection =
     (let by_ending = (\<lambda>is_kind. filter is_kind important_files @ filter is_kind filtered_files);
          notebook_paths = by_ending (\<lambda>f. py_endswith f ''.ipynb'');
          python_paths = by_ending (\<lambda>f. py_endswith f ''.py'');
          markdown_paths = by_ending (\<lambda>f. py_endswith f ''.md'');
          terraform_paths = by_ending (\<lambda>f. py_endswith f ''.tf'');
          shell_paths = by_ending (\<lambda>f. py_endswith f ''.sh'');
          text_paths = by_ending (\<lambda>f. py_endswith f ''.txt'');
          tokens_used = length content_summary div 4;
          acc1 = foldl (add_notebook (env_json_loads env) fs
                          (get_or (max_notebook_cells selection) 10000))
                   (content_summary, tokens_used)
                   (py_take (get_or (max_notebooks selection) 1000) notebook_paths);
          acc2 = add_code_files ''```python''
                   ''*Note: Additional files omitted due to token limit*'' fs
                   (get_or (max_python_lines selection) 100000)
                   (py_take (get_or (max_python_files selection) 1000) python_paths) acc1;
          acc3 = add_markdown_files fs
                   (py_take (get_or (max_markdown_files selection) 1000) markdown_paths) acc2;
          yaml_paths = by_ending is_yaml_file;
          acc4 = add_code_files ''```yaml''
                   ''*Note: Additional YAML files omitted due to token limit*'' fs
                   (get_or (max_yaml_lines selection) 100000)
                   (py_take (get_or (max_yaml_files selection) 1000) yaml_paths) acc3;
          acc5 = add_code_files ''```hcl''
                   ''*Note: Additional files omitted due to token limit*'' fs
                   (get_or (max_terraform_lines selection) 100000)
                   (py_take (get_or (max_terraform_files selection) 1000) terraform_paths) acc4;
          acc6 = add_code_files ''```bash''
                   ''*Note: Additional files omitted due to token limit*'' fs
                   (get_or (max_shell_lines selection) 100000)
                   (py_take (get_or (max_shell_files selection) 1000) shell_paths) acc5
      in add_code_files ''```''
           ''*Note: Additional files omitted due to token limit*'' fs
           (get_or (max_text_lines selection) 100000)
           (py_take (get_or (max_text_files selection) 1000) text_paths) acc6)"

text \<open>
  \<^verbatim>\<open>get_folder_content_summary(folder_name, config)\<close>: \<^verbatim>\<open>None\<close> for a folder that does
  not exist. When \<^verbatim>\<open>README.md\<close> exists and cannot be read, \<^verbatim>\<open>read_file\<close> gives \<^verbatim>\<open>None\<close>
  and appending it to the summary raises \<^verbatim>\<open>TypeError\<close>.
\<close>

definition folder_assembly ::
  "environment \<Rightarrow> file_system \<Rightarrow> string \<Rightarrow> config \<Rightarrow> py_exception + assembly option"
where
  "folder_assembly env fs folder_name config =
     (let folder_path = path_join (repo_root env) folder_name
      in if \<not> env_exists env fs folder_path then Inr None
         else
           (let readme_path = path_join folder_path ''README.md'';
                readme_content = (if fs readme_path \<noteq> None then read_file fs readme_path
                                  else Some ''No README.md found.'');
                all_files = list_files env fs folder_path;
                selection = get_or (file_selection config) no_file_selection
            in case filter_files (env_fnmatch env) all_files config of
                 (important_files, filtered_files) \<Rightarrow>
                   (case readme_content of
                      None \<Rightarrow> Inl (OtherException ''TypeError'')
                    | Some readme \<Rightarrow>
                        Inr (Some (key_file_contents env fs
                          (summary_head folder_name readme all_files important_files
                             filtered_files selection)
                          important_files filtered_files selection)))))"

definition get_folder_content_summary ::
  "environment \<Rightarrow> file_system \<Rightarrow> string \<Rightarrow> config \<Rightarrow> py_exception + string option"
where
  "get_folder_content_summary env fs folder_name config =
     map_sum id (map_option fst) (folder_assembly env fs folder_name config)"

section \<open>The summary generator: cleaning the model's response\<close>

text \<open>\<^verbatim>\<open>s.find(sub)\<close>: the index of the first occurrence, or \<open>-1\<close>.\<close>

definition py_find :: "string \<Rightarrow> string \<Rightarrow> int" where
  "py_find sub s = (case split_first sub s of None \<Rightarrow> - 1 | Some (front, back) \<Rightarrow> int (length front))"

text \<open>The index of the first element that satisfies a test.\<close>

fun first_index :: "('a \<Rightarrow> bool) \<Rightarrow> 'a list \<Rightarrow> nat option" where
  "first_index test [] = None"
| "first_index test (x # xs) = (if test x then Some 0 else map_option Suc (first_index test xs))"

text \<open>
  \<^verbatim>\<open>re.sub(pattern, replacement, s)\<close>, for a pattern that cannot match the empty string.
  \<open>match_at s\<close> says whether the pattern matches at the start of \<open>s\<close>, and then gives the
  replacement text of that match and what follows the match. The scan goes from the
  left; at a match the replacement is written and the scan goes on behind the match,
  otherwise one character is copied. (The test on the lengths holds for every match
  that consumes a character.)
\<close>

function re_sub :: "(string \<Rightarrow> (string \<times> string) option) \<Rightarrow> string \<Rightarrow> string" where
  "re_sub match_at [] = []"
| "re_sub match_at (c # cs) =
     (case match_at (c # cs) of
        None \<Rightarrow> c # re_sub match_at cs
      | Some (replacement, rest) \<Rightarrow>
          if length rest \<le> length cs then replacement @ re_sub match_at rest
          else c # re_sub match_at cs)"
  by pat_completeness auto
termination
  by (relation "measure (\<lambda>(match_at, s). length s)") auto

text \<open>\<^verbatim>\<open>re.search(pattern, s)\<close> as a truth value.\<close>

fun re_search :: "(string \<Rightarrow> (string \<times> string) option) \<Rightarrow> string \<Rightarrow> bool" where
  "re_search match_at [] = False"
| "re_search match_at (c # cs) = (match_at (c # cs) \<noteq> None \<or> re_search match_at cs)"

text \<open>
  The pattern \<^verbatim>\<open>```\s*```\<close>: three backticks, white space, three backticks. White space
  is never a backtick, so the greedy \<^verbatim>\<open>\s*\<close> takes the whole run. The replacement is
  empty.
\<close>

definition empty_fence_at :: "string \<Rightarrow> (string \<times> string) option" where
  "empty_fence_at s =
     (if py_startswith s ''```''
      then (let after = dropWhile is_space (drop 3 s)
            in if py_startswith after ''```'' then Some ([], drop 3 after) else None)
      else None)"

text \<open>
  The pattern \<^verbatim>\<open>```mermaid\n(.*?)\n```\s*\n\s*subgraph\<close> with \<^verbatim>\<open>re.DOTALL\<close>. Its tail
  \<^verbatim>\<open>\n```\s*\n\s*subgraph\<close> matches a newline, three backticks, a run of white space with
  a newline in it, and the word; the word does not start with white space, so the run
  is the whole run. The lazy group ends at the first place where the tail matches. The
  replacement is \<^verbatim>\<open>```mermaid\n\1\n    subgraph\<close>.
\<close>

definition subgraph_tail_at :: "string \<Rightarrow> string option" where
  "subgraph_tail_at s =
     (if py_startswith s (nl @ ''```'')
      then (let after = drop 4 s;
                gap = takeWhile is_space after;
                rest = dropWhile is_space after
            in if CHR 0x0A \<in> set gap \<and> py_startswith rest ''subgraph''
               then Some (drop 8 rest) else None)
      else None)"

fun lazy_until_tail :: "string \<Rightarrow> (string \<times> string) option" where
  "lazy_until_tail [] = None"
| "lazy_until_tail (c # cs) =
     (case subgraph_tail_at (c # cs) of
        Some rest \<Rightarrow> Some ([], rest)
      | None \<Rightarrow> map_option (\<lambda>(group1, rest). (c # group1, rest)) (lazy_until_tail cs))"

definition split_mermaid_at :: "string \<Rightarrow> (string \<times> string) option" where
  "split_mermaid_at s =
     (if py_startswith s (''```mermaid'' @ nl)
      then map_option
             (\<lambda>(group1, rest). (''```mermaid'' @ nl @ group1 @ nl @ ''    subgraph'', rest))
             (lazy_until_tail (drop 11 s))
      else None)"

text \<open>Every match of that pattern takes three backticks away, which is why the
  \<^verbatim>\<open>while\<close> loop below ends.\<close>

definition backticks :: "string \<Rightarrow> nat" where
  "backticks s = length (filter (\<lambda>c. c = CHR 0x60) s)"

lemma backticks_Nil [simp]: "backticks [] = 0"
  by (simp add: backticks_def)

lemma backticks_append [simp]: "backticks (a @ b) = backticks a + backticks b"
  by (simp add: backticks_def)

lemma backticks_Cons: "backticks (c # cs) = (if c = CHR 0x60 then 1 else 0) + backticks cs"
  by (simp add: backticks_def)

lemma backticks_spaces: "\<forall>c \<in> set gap. is_space c \<Longrightarrow> backticks gap = 0"
  by (induction gap) (auto simp: backticks_def is_space_def)

lemma subgraph_tail_at_shape:
  assumes "subgraph_tail_at s = Some rest"
  shows "backticks s = 3 + backticks rest \<and> length rest < length s"
proof -
  from assms obtain r where s: "s = (nl @ ''```'') @ r"
    by (auto simp: subgraph_tail_at_def py_startswith_iff split: if_splits)
  have after: "drop 4 s = r" by (simp add: s)
  from assms after obtain r2 where
    d: "dropWhile is_space r = ''subgraph'' @ r2" and rest: "rest = r2"
    by (auto simp: subgraph_tail_at_def Let_def py_startswith_iff split: if_splits)
  have r: "r = takeWhile is_space r @ ''subgraph'' @ r2"
    using takeWhile_dropWhile_id [of is_space r] d by simp
  have g: "backticks (takeWhile is_space r) = 0"
    by (rule backticks_spaces) (auto dest: set_takeWhileD)
  have "backticks r = backticks (takeWhile is_space r) + backticks (''subgraph'' @ r2)"
    by (subst r) (simp only: backticks_append)
  then have br: "backticks r = backticks r2"
    by (simp add: g backticks_Cons)
  have "length r = length (takeWhile is_space r) + length (''subgraph'' @ r2)"
    by (subst r) (simp only: length_append)
  then have lr: "length r2 < length r" by simp
  show ?thesis using br lr by (simp add: s rest backticks_Cons)
qed

lemma lazy_until_tail_shape:
  "lazy_until_tail s = Some (group1, rest) \<Longrightarrow>
   backticks s = backticks group1 + 3 + backticks rest \<and> length rest < length s"
proof (induction s arbitrary: group1)
  case Nil
  then show ?case by simp
next
  case (Cons c cs)
  show ?case
  proof (cases "subgraph_tail_at (c # cs)")
    case (Some r)
    with Cons.prems have "group1 = []" "rest = r" by auto
    with subgraph_tail_at_shape [OF Some] show ?thesis by (simp add: backticks_def)
  next
    case None
    with Cons.prems obtain g where l: "lazy_until_tail cs = Some (g, rest)" and g: "group1 = c # g"
      by auto
    from Cons.IH [OF l] show ?thesis by (simp add: g backticks_Cons)
  qed
qed

lemma split_mermaid_at_shape:
  assumes "split_mermaid_at s = Some (replacement, rest)"
  shows "backticks replacement + backticks rest + 3 = backticks s \<and> length rest < length s"
proof -
  from assms obtain r where s: "s = (''```mermaid'' @ nl) @ r"
    by (auto simp: split_mermaid_at_def py_startswith_iff split: if_splits)
  have d: "drop 11 s = r" by (simp add: s)
  from assms d obtain g where l: "lazy_until_tail r = Some (g, rest)"
    and repl: "replacement = ''```mermaid'' @ nl @ g @ nl @ ''    subgraph''"
    by (auto simp: split_mermaid_at_def split: if_splits)
  from lazy_until_tail_shape [OF l] show ?thesis
    by (simp add: s repl backticks_Cons)
qed


lemma re_sub_backticks:
  assumes "\<And>s replacement rest. match_at s = Some (replacement, rest) \<Longrightarrow>
             backticks replacement + backticks rest + 3 = backticks s \<and> length rest < length s"
  shows "backticks (re_sub match_at s) \<le> backticks s
       \<and> (re_search match_at s \<longrightarrow> backticks (re_sub match_at s) < backticks s)"
proof (induction s rule: length_induct)
  case (1 s)
  show ?case
  proof (cases s)
    case Nil
    then show ?thesis by simp
  next
    case (Cons c cs)
    have ih_cs: "backticks (re_sub match_at cs) \<le> backticks cs
        \<and> (re_search match_at cs \<longrightarrow> backticks (re_sub match_at cs) < backticks cs)"
      using "1.IH" Cons by simp
    show ?thesis
    proof (cases "match_at (c # cs)")
      case None
      with ih_cs show ?thesis by (auto simp: Cons backticks_Cons)
    next
      case (Some m)
      obtain replacement rest where m: "m = (replacement, rest)" by (cases m)
      from assms [of "c # cs" replacement rest] Some m
      have b: "backticks replacement + backticks rest + 3 = backticks (c # cs)"
        and l: "length rest \<le> length cs" by auto
      have "backticks (re_sub match_at rest) \<le> backticks rest"
        using "1.IH" Cons l by simp
      with b show ?thesis by (simp add: Cons Some m l)
    qed
  qed
qed

text \<open>The loop \<^verbatim>\<open>while re.search(pattern, response, re.DOTALL)\<close>.\<close>

function join_split_mermaid :: "string \<Rightarrow> string" where
  "join_split_mermaid response =
     (if re_search split_mermaid_at response
      then join_split_mermaid (re_sub split_mermaid_at response)
      else response)"
  by pat_completeness auto
termination
proof (relation "measure backticks")
  show "wf (measure backticks)" by simp
next
  fix response
  assume "re_search split_mermaid_at response"
  with re_sub_backticks [of split_mermaid_at response] split_mermaid_at_shape
  show "(re_sub split_mermaid_at response, response) \<in> measure backticks"
    by auto
qed

declare join_split_mermaid.simps [simp del]

text \<open>
  The pattern \<^verbatim>\<open>(\n|^)mermaid\s*\n(flowchart|graph|...)\<close>, without flags, so that \<^verbatim>\<open>^\<close>
  is the start of the text only. After the word, \<^verbatim>\<open>\s*\n\<close> is a run of white space that
  ends in a newline, and a diagram type follows it at once; no diagram type starts with
  white space and none is the start of another. The replacement is
  \<^verbatim>\<open>\1```mermaid\n\2\<close>.
\<close>

definition diagram_types :: "string list" where
  "diagram_types =
     [''flowchart'', ''graph'', ''sequenceDiagram'', ''classDiagram'', ''stateDiagram'', ''gantt'',
      ''pie'', ''journey'', ''gitGraph'', ''mindmap'', ''timeline'', ''sankey'', ''requirement'',
      ''erDiagram'']"

definition mermaid_word_at :: "string \<Rightarrow> (string \<times> string) option" where
  "mermaid_word_at s =
     (if py_startswith s ''mermaid''
      then (let after = drop 7 s;
                gap = takeWhile is_space after;
                rest = dropWhile is_space after
            in if gap \<noteq> [] \<and> last gap = CHR 0x0A
               then (case find (\<lambda>diagram. py_startswith rest diagram) diagram_types of
                       None \<Rightarrow> None
                     | Some diagram \<Rightarrow> Some (diagram, drop (length diagram) rest))
               else None)
      else None)"

definition bare_mermaid_at :: "string \<Rightarrow> (string \<times> string) option" where
  "bare_mermaid_at s =
     (case s of
        [] \<Rightarrow> None
      | c # cs \<Rightarrow>
          if c = CHR 0x0A
          then map_option (\<lambda>(diagram, rest). (nl @ ''```mermaid'' @ nl @ diagram, rest))
                 (mermaid_word_at cs)
          else None)"

definition fence_bare_mermaid :: "string \<Rightarrow> string" where
  "fence_bare_mermaid response =
     (case mermaid_word_at response of
        Some (diagram, rest) \<Rightarrow> ''```mermaid'' @ nl @ diagram @ re_sub bare_mermaid_at rest
      | None \<Rightarrow> re_sub bare_mermaid_at response)"

text \<open>
  The last loop of \<^verbatim>\<open>clean_model_response\<close>, over the lines that are left, with the
  lines written so far and the flag \<open>in_mermaid\<close>; after the last line an open block is
  closed.
\<close>

fun fix_lines :: "string list \<Rightarrow> string list \<Rightarrow> bool \<Rightarrow> string list" where
  "fix_lines [] result in_mermaid = (if in_mermaid then result @ [''```''] else result)"
| "fix_lines (raw # rest) result in_mermaid =
     (let line = py_strip raw
      in if line = ''```mermaid'' then fix_lines rest (result @ [raw]) True
         else if line = ''```'' \<and> in_mermaid then
           (case dropWhile (\<lambda>l. py_strip l = []) rest of
              [] \<Rightarrow> fix_lines rest (result @ [raw]) False
            | next_line # later \<Rightarrow>
                if py_startswith (py_strip next_line) ''subgraph''
                then fix_lines rest result in_mermaid
                else fix_lines rest (result @ [raw]) False)
         else if py_startswith line ''subgraph'' \<and> \<not> in_mermaid then
           (if result \<noteq> [] \<and> py_strip (last result) = ''```''
            then fix_lines rest (butlast result @ [''    '' @ raw]) True
            else fix_lines rest (result @ [''```mermaid''] @ [''    '' @ raw]) True)
         else if in_mermaid then
           (if py_startswith line ''subgraph'' \<or> line = ''end'' \<or> py_startswith line ''    ''
            then fix_lines rest (result @ [raw]) in_mermaid
            else fix_lines rest (result @ [''    '' @ raw]) in_mermaid)
         else fix_lines rest (result @ [raw]) in_mermaid)"

text \<open>\<^verbatim>\<open>clean_model_response(response)\<close>.\<close>

definition clean_model_response :: "string \<Rightarrow> string" where
  "clean_model_response response =
     (let response1 = (if py_in ''# SUMMARY'' response
                       then py_drop (py_find ''# SUMMARY'' response) response
                       else response);
          lines1 = split_char (CHR 0x0A) response1;
          start_index = (case first_index (\<lambda>line. py_startswith line ''# SUMMARY'') lines1 of
                           None \<Rightarrow> 0
                         | Some i \<Rightarrow> i);
          response2 = py_join nl (drop start_index lines1);
          response3 = re_sub empty_fence_at response2;
          response4 = join_split_mermaid response3;
          response5 = fence_bare_mermaid response4;
          result = fix_lines (split_char (CHR 0x0A) response5) [] False
      in py_join nl result)"

section \<open>The summary generator: one folder, and the run over the folders\<close>

text \<open>
  The world the script acts on: the file system, the calls made to the hosted endpoint
  so far (each with the folder it was made for and the prompt sent), and the seconds
  slept. Writing a file is taken to succeed.
\<close>

record world =
  w_fs :: file_system
  w_calls :: "(string \<times> string) list"
  w_slept :: nat

text \<open>The exception of a subscript whose key is missing.\<close>

definition key_error :: py_exception where
  "key_error = OtherException ''KeyError''"

text \<open>The prompt \<^verbatim>\<open>generate_summary_with_bedrock\<close> assembles for a folder, from the
  template, the file prefix and the output directory of the configuration, and the
  folder's content.\<close>

definition full_prompt :: "string \<Rightarrow> string \<Rightarrow> string \<Rightarrow> string \<Rightarrow> string \<Rightarrow> string" where
  "full_prompt folder_name prompt_template file_prefix directory folder_content =
     (let complete_report_filename = file_prefix @ folder_name @ ''.md'';
          prompt1 = py_replace ''[codebase-folder-name]'' folder_name prompt_template;
          prompt2 = py_replace ''[report-file-name]'' complete_report_filename prompt1;
          prompt3 = py_replace ''[report-folder-name]'' directory prompt2;
          prompt = prompt3 @ nl @ nl
            @ ''IMPORTANT: Start your response directly with the title '' @ [CHR 0x27] @ ''# ''
            @ complete_report_filename @ [CHR 0x27]
            @ '' (not abbreviated). Do not include any introductory text, preamble, or markdown tags before the title. Begin with the exact title and proceed with the analysis.''
      in prompt @ nl @ nl @ ''# Folder Content to Analyze'' @ nl @ nl @ folder_content)"

text \<open>The debug log of a prompt: its path and its text.\<close>

definition debug_log_path :: "environment \<Rightarrow> string \<Rightarrow> string" where
  "debug_log_path env folder_name =
     path_join (path_join (analysis_dir env) ''logs'')
       (''debug_'' @ py_replace ''/'' ''_'' folder_name @ ''.log'')"

definition debug_log_text :: "environment \<Rightarrow> string \<Rightarrow> string \<Rightarrow> string" where
  "debug_log_text env folder_name prompt =
     ''# Debug Log for '' @ folder_name @ nl
     @ ''# Generated on: '' @ env_now env @ nl
     @ ''# Prompt length: '' @ str_nat (length prompt) @ '' characters'' @ nl
     @ ''# Estimated token count: ~'' @ str_nat (length prompt div 4) @ '' tokens'' @ nl @ nl
     @ ''# FULL PROMPT:'' @ nl @ nl
     @ prompt
     @ nl @ nl @ ''# END OF PROMPT''"

text \<open>
  What the \<^verbatim>\<open>try\<close> block reads from the configuration before the endpoint is called,
  in its order: the model name (for the message printed), then the arguments of the
  call, which are the model id, the temperature and the token limit. \<open>None\<close> when one of
  the reads raises \<^verbatim>\<open>KeyError\<close>.
\<close>

definition call_settings :: "config \<Rightarrow> (string \<times> string \<times> int) option" where
  "call_settings config =
     (case model_name config of
        None \<Rightarrow> None
      | Some name \<Rightarrow>
          (case model_id config of
             None \<Rightarrow> None
           | Some model \<Rightarrow>
               (case inference_temperature config of
                  None \<Rightarrow> None
                | Some temperature \<Rightarrow>
                    (case inference_max_tokens config of
                       None \<Rightarrow> None
                     | Some max_toks \<Rightarrow> Some (model, temperature, max_toks)))))"

text \<open>
  \<^verbatim>\<open>generate_summary_with_bedrock\<close>: the summary, \<^verbatim>\<open>None\<close>, or the exception that
  leaves the function, and the world after it. A missing output key raises while the
  prompt is assembled; the debug log is written next; creating the client may raise.
  These stand before the \<^verbatim>\<open>try\<close> block. In the block stand the reads of
  \<open>call_settings\<close>, the call of the endpoint and the cleaning of its answer; its clause
  \<^verbatim>\<open>except Exception\<close> returns \<^verbatim>\<open>None\<close>, so a missing key there gives \<^verbatim>\<open>None\<close> and no
  call is made.
\<close>

definition generate_summary_with_bedrock ::
  "environment \<Rightarrow> string \<Rightarrow> string \<Rightarrow> config \<Rightarrow> world
     \<Rightarrow> (py_exception + string option) \<times> world"
where
  "generate_summary_with_bedrock env folder_name prompt_template config w =
     (case get_folder_content_summary env (w_fs w) folder_name config of
        Inl e \<Rightarrow> (Inl e, w)
      | Inr None \<Rightarrow> (Inr None, w)
      | Inr (Some folder_content) \<Rightarrow>
          if folder_content = [] then (Inr None, w)
          else
            (case output_file_prefix config of
               None \<Rightarrow> (Inl key_error, w)
             | Some file_prefix \<Rightarrow>
                 (case output_directory config of
                    None \<Rightarrow> (Inl key_error, w)
                  | Some directory \<Rightarrow>
                      (let prompt = full_prompt folder_name prompt_template file_prefix directory
                                      folder_content;
                           w1 = (if debug_enabled config = Some True
                                    \<and> debug_print_prompt config = Some True
                                 then w\<lparr>w_fs := (w_fs w)(debug_log_path env folder_name \<mapsto>
                                        File (debug_log_text env folder_name prompt))\<rparr>
                                 else w)
                       in case env_client env of
                            Some e \<Rightarrow> (Inl e, w1)
                          | None \<Rightarrow>
                              (case call_settings config of
                                 None \<Rightarrow> (Inr None, w1)
                               | Some (model, temperature, max_toks) \<Rightarrow>
                                   (let w2 = w1\<lparr>w_calls := w_calls w1 @ [(folder_name, prompt)]\<rparr>
                                    in case env_converse env (map snd (w_calls w1)) model
                                              temperature max_toks prompt of
                                         Inl e \<Rightarrow> (Inr None, w2)
                                       | Inr model_response \<Rightarrow>
                                           (Inr (Some (clean_model_response model_response)),
                                            w2)))))))"

text \<open>The file \<^verbatim>\<open>generate_summary_file\<close> writes for a folder.\<close>

definition output_file :: "environment \<Rightarrow> string \<Rightarrow> string \<Rightarrow> string" where
  "output_file env file_prefix folder_name =
     path_join (analysis_dir env)
       (file_prefix @ py_replace ''/'' ''_'' folder_name @ ''.md'')"

text \<open>\<^verbatim>\<open>generate_summary_file\<close>. Its first statement reads the file prefix.\<close>

definition generate_summary_file ::
  "environment \<Rightarrow> string \<Rightarrow> string \<Rightarrow> config \<Rightarrow> world \<Rightarrow> (py_exception + bool) \<times> world"
where
  "generate_summary_file env folder_name prompt_template config w =
     (case output_file_prefix config of
        None \<Rightarrow> (Inl key_error, w)
      | Some file_prefix \<Rightarrow>
          if w_fs w (output_file env file_prefix folder_name) \<noteq> None then (Inr True, w)
          else
            (case generate_summary_with_bedrock env folder_name prompt_template config w of
               (Inl e, w1) \<Rightarrow> (Inl e, w1)
             | (Inr None, w1) \<Rightarrow> (Inr False, w1)
             | (Inr (Some summary), w1) \<Rightarrow>
                 if summary = [] then (Inr False, w1)
                 else (Inr True,
                       w1\<lparr>w_fs := (w_fs w1)(output_file env file_prefix folder_name
                                              \<mapsto> File summary)\<rparr>)))"

text \<open>The loop of \<^verbatim>\<open>main\<close> over the folders, with \<open>success_count\<close>. An exception that
  leaves \<^verbatim>\<open>generate_summary_file\<close> leaves the loop and the script.\<close>

fun process_folders ::
  "environment \<Rightarrow> string \<Rightarrow> config \<Rightarrow> string list \<Rightarrow> nat \<Rightarrow> world \<Rightarrow> (py_exception + nat) \<times> world"
where
  "process_folders env prompt_template config [] success_count w = (Inr success_count, w)"
| "process_folders env prompt_template config (folder # folders) success_count w =
     (case generate_summary_file env folder prompt_template config w of
        (Inl e, w1) \<Rightarrow> (Inl e, w1)
      | (Inr True, w1) \<Rightarrow>
          process_folders env prompt_template config folders (success_count + 1)
            (w1\<lparr>w_slept := w_slept w1 + 5\<rparr>)
      | (Inr False, w1) \<Rightarrow> process_folders env prompt_template config folders success_count w1)"

text \<open>
  \<^verbatim>\<open>main()\<close> with the command line \<open>argv\<close>: \<^verbatim>\<open>None\<close> when the configuration or the
  prompt template cannot be loaded, and the number of successes otherwise. Folders come
  from the command line or, when it names none, from the configuration without its
  empty entries. Before the loop the folder list and the model name of the
  configuration are printed, which raises \<^verbatim>\<open>KeyError\<close> when one is missing.
\<close>

definition main ::
  "environment \<Rightarrow> (string \<Rightarrow> py_exception + config option) \<Rightarrow> string list \<Rightarrow> world
     \<Rightarrow> (py_exception + nat option) \<times> world"
where
  "main env yaml_safe_load argv w =
     (case load_config (w_fs w) yaml_safe_load (config_path env) of
        None \<Rightarrow> (Inr None, w)
      | Some config \<Rightarrow>
          (case read_file (w_fs w) (prompt_template_path env) of
             None \<Rightarrow> (Inr None, w)
           | Some prompt_template \<Rightarrow>
               if prompt_template = [] then (Inr None, w)
               else
                 (case folders_to_analyze config of
                    None \<Rightarrow> (Inl key_error, w)
                  | Some listed \<Rightarrow>
                      (case model_name config of
                         None \<Rightarrow> (Inl key_error, w)
                       | Some name \<Rightarrow>
                           (let folders =
                                  (if length argv > 1 then tl argv
                                   else concat (map (\<lambda>folder. case folder of
                                                       None \<Rightarrow> []
                                                     | Some name \<Rightarrow> if name = [] then [] else [name])
                                                  listed))
                            in case process_folders env prompt_template config folders 0 w of
                                 (Inl e, w1) \<Rightarrow> (Inl e, w1)
                               | (Inr success_count, w1) \<Rightarrow> (Inr (Some success_count), w1))))))"

text \<open>
  The calls the amended claim C5 expects for one entry of the folder list, processed in
  world \<open>w\<close>: one call, for that folder and with the prompt assembled from its content,
  when the configuration has its output keys, no summary file exists for the folder,
  the folder's content summary is there and not empty, the client can be created and
  the configuration has the model name, the model id, the temperature and the token
  limit; and no call otherwise.
\<close>

definition expected_calls ::
  "environment \<Rightarrow> config \<Rightarrow> string \<Rightarrow> world \<Rightarrow> string \<Rightarrow> (string \<times> string) list"
where
  "expected_calls env config prompt_template w folder_name =
     (case (output_file_prefix config, output_directory config,
            get_folder_content_summary env (w_fs w) folder_name config) of
        (Some file_prefix, Some directory, Inr (Some folder_content)) \<Rightarrow>
          if w_fs w (output_file env file_prefix folder_name) = None
             \<and> folder_content \<noteq> []
             \<and> env_client env = None
             \<and> model_name config \<noteq> None \<and> model_id config \<noteq> None
             \<and> inference_temperature config \<noteq> None \<and> inference_max_tokens config \<noteq> None
          then [(folder_name,
                 full_prompt folder_name prompt_template file_prefix directory folder_content)]
          else []
      | _ \<Rightarrow> [])"

section \<open>An example run\<close>

text \<open>A small environment, configuration and world on which the theorems below are
  instantiated: a repository whose folders exist and hold no files, and an endpoint that
  answers every prompt or fails on every prompt.\<close>

definition example_env :: "(py_exception + string) \<Rightarrow> environment" where
  "example_env answer =
     \<lparr>env_fnmatch = (\<lambda>name pattern. name = pattern),
      env_walk = (\<lambda>fs directory. []),
      env_exists = (\<lambda>fs path. True),
      env_json_loads = (\<lambda>text. Inr []),
      env_client = None,
      env_converse = (\<lambda>earlier model temperature max_toks prompt. answer),
      env_now = ''2025-01-01 at 00:00:00'',
      repo_root = ''/repo''\<rparr>"

definition example_config :: config where
  "example_config =
     \<lparr>file_selection = None, output_file_prefix = Some ''SUMMARY-'',
      output_directory = Some ''my-analysis'', model_id = Some ''model-1'',
      model_name = Some ''Model'', inference_temperature = Some ''0.0'',
      inference_max_tokens = Some 4096, debug_enabled = None, debug_print_prompt = None,
      folders_to_analyze = Some [Some ''docs'']\<rparr>"

definition example_world :: world where
  "example_world = \<lparr>w_fs = Map.empty, w_calls = [], w_slept = 0\<rparr>"

section \<open>Facts about the string functions\<close>

lemma py_in_iff: "py_in sub s \<longleftrightarrow> occurs_in sub s"
proof (induction s)
  case Nil
  then show ?case by (simp add: occurs_in_def)
next
  case (Cons c cs)
  have "occurs_in sub (c # cs) \<longleftrightarrow> (\<exists>r. c # cs = sub @ r) \<or> occurs_in sub cs"
  proof
    assume "occurs_in sub (c # cs)"
    then obtain b a where e: "c # cs = b @ sub @ a" by (auto simp: occurs_in_def)
    show "(\<exists>r. c # cs = sub @ r) \<or> occurs_in sub cs"
    proof (cases b)
      case Nil
      with e show ?thesis by auto
    next
      case (Cons b0 bs)
      with e have "cs = bs @ sub @ a" by simp
      then show ?thesis by (auto simp: occurs_in_def)
    qed
  next
    assume "(\<exists>r. c # cs = sub @ r) \<or> occurs_in sub cs"
    then show "occurs_in sub (c # cs)"
    proof
      assume "\<exists>r. c # cs = sub @ r"
      then obtain r where "c # cs = [] @ sub @ r" by auto
      then show ?thesis unfolding occurs_in_def by blast
    next
      assume "occurs_in sub cs"
      then obtain b a where "cs = b @ sub @ a" by (auto simp: occurs_in_def)
      then have "c # cs = (c # b) @ sub @ a" by simp
      then show ?thesis unfolding occurs_in_def by blast
    qed
  qed
  with Cons show ?case by (simp add: py_startswith_iff)
qed

lemma any_keyword_in_iff:
  "any_keyword_in keywords q \<longleftrightarrow> (\<exists>k \<in> set keywords. occurs_in k q)"
  by (simp add: any_keyword_in_def list_ex_iff py_in_iff)

section \<open>The strategy label\<close>

text \<open>
  Claim C1. For every query, \<open>_determine_agent_strategy\<close> returns the labels of exactly the
  categories with a keyword occurring in the lowercased query, in the order research,
  analysis, creative, joined by a comma and a space; when no category has one, it
  returns the default label \<open>coordinator\<close>.
\<close>

theorem determine_agent_strategy_labels:
  "determine_agent_strategy query =
     (if matched_labels query = [] then ''coordinator''
      else py_join '', '' (matched_labels query))"
  by (simp add: determine_agent_strategy_def matched_labels_def strategy_categories_def
      any_keyword_in_iff)

section \<open>File selection\<close>

lemma basename_example: "basename ''docs/guide/README.md'' = ''README.md''"
  by (simp add: basename_def)

text \<open>
  Claim C8. The two lists \<open>filter_files\<close> returns share no path, and every path of the
  input whose basename matches an include pattern is in \<open>important_files\<close>, whether or
  not an exclude pattern matches it too.
\<close>

theorem filter_files_disjoint_include_wins:
  assumes "filter_files fnmatch files config = (important_files, filtered_files)"
  shows "set important_files \<inter> set filtered_files = {}
       \<and> (\<forall>file_path \<in> set files.
            (\<exists>pattern \<in> set (get_or (include_patterns
                                 (get_or (file_selection config) no_file_selection)) []).
               fnmatch (basename file_path) pattern)
            \<longrightarrow> file_path \<in> set important_files)"
  using assms by (auto simp: filter_files_def Let_def list_ex_iff)

theorem filter_files_disjoint_include_wins_witness:
  "filter_files (\<lambda>name pattern. name = pattern) [''a/README.md'', ''a/run.py'', ''a/notes.txt'']
     \<lparr>file_selection = Some (no_file_selection\<lparr>include_patterns := Some [''README.md''],
                         exclude_patterns := Some [''README.md'', ''notes.txt'']\<rparr>),
      output_file_prefix = Some ''SUMMARY-'', output_directory = Some ''my-analysis'',
      model_id = Some ''m'', model_name = Some ''M'', inference_temperature = None,
      inference_max_tokens = None, debug_enabled = None, debug_print_prompt = None,
      folders_to_analyze = Some []\<rparr>
     = ([''a/README.md''], [''a/run.py''])
   \<and> set [''a/README.md''] \<inter> set [''a/run.py''] = {}
   \<and> ''a/README.md'' \<in> set [''a/README.md'']"
proof -
  have run: "filter_files (\<lambda>name pattern. name = pattern)
      [''a/README.md'', ''a/run.py'', ''a/notes.txt'']
      \<lparr>file_selection = Some (no_file_selection\<lparr>include_patterns := Some [''README.md''],
                          exclude_patterns := Some [''README.md'', ''notes.txt'']\<rparr>),
       output_file_prefix = Some ''SUMMARY-'', output_directory = Some ''my-analysis'',
       model_id = Some ''m'', model_name = Some ''M'', inference_temperature = None,
       inference_max_tokens = None, debug_enabled = None, debug_print_prompt = None,
       folders_to_analyze = Some []\<rparr>
     = ([''a/README.md''], [''a/run.py''])"
    by (simp add: filter_files_def no_file_selection_def get_or_def basename_def)
  from filter_files_disjoint_include_wins [OF run] run show ?thesis by simp
qed

section \<open>The controller's invoke\<close>

text \<open>
  Claim C10. For a request whose \<open>stream\<close> is \<open>True\<close> the controller's \<open>invoke\<close> raises
  \<open>ValueError\<close> with the message "Streaming requests should use the /stream endpoint" and
  the agent is not called: whatever the agent is, its state is left as it was. For a
  request whose \<open>stream\<close> is unset or \<open>False\<close> the result is the agent's, unchanged. So
  \<open>invoke\<close> raises exactly when the request asks for streaming or the agent raises.
\<close>

theorem controller_invoke_raises_iff:
  "(req_stream request = Some True \<longrightarrow>
      controller_invoke agent request st =
        (Inl (ValueError ''Streaming requests should use the /stream endpoint''), st))
   \<and> (req_stream request = None \<or> req_stream request = Some False \<longrightarrow>
      controller_invoke agent request st = agent request st)
   \<and> ((\<exists>e. fst (controller_invoke agent request st) = Inl e) \<longleftrightarrow>
        req_stream request = Some True \<or> (\<exists>e. fst (agent request st) = Inl e))"
  by (auto simp: controller_invoke_def)

theorem controller_invoke_raises_iff_witness:
  "controller_invoke (\<lambda>r n. (Inl (OtherException ''agent called''), Suc n))
      \<lparr>req_message = \<lparr>role = ''user'', content = [TextContent ''hi'']\<rparr>,
       req_session_id = Some ''s1'', req_stream = Some True\<rparr> (0::nat)
     = (Inl (ValueError ''Streaming requests should use the /stream endpoint''), 0)
   \<and> controller_invoke (agent_invoke (\<lambda>q. Inr ''answer''))
      \<lparr>req_message = \<lparr>role = ''user'', content = [TextContent ''hi'']\<rparr>,
       req_session_id = Some ''s1'', req_stream = None\<rparr> []
     = agent_invoke (\<lambda>q. Inr ''answer'')
      \<lparr>req_message = \<lparr>role = ''user'', content = [TextContent ''hi'']\<rparr>,
       req_session_id = Some ''s1'', req_stream = None\<rparr> []"
  using controller_invoke_raises_iff
      [of "\<lparr>req_message = \<lparr>role = ''user'', content = [TextContent ''hi'']\<rparr>,
           req_session_id = Some ''s1'', req_stream = Some True\<rparr>"
          "\<lambda>r n. (Inl (OtherException ''agent called''), Suc n)" "0::nat"]
    controller_invoke_raises_iff
      [of "\<lparr>req_message = \<lparr>role = ''user'', content = [TextContent ''hi'']\<rparr>,
           req_session_id = Some ''s1'', req_stream = None\<rparr>"
          "agent_invoke (\<lambda>q. Inr ''answer'')" "[]"]
  by simp

section \<open>The agent's invoke and the chat controller\<close>

text \<open>
  Claim C4, as stated, fails where the request's session identifier is the empty string:
  it is set, and the response carries \<open>default\<close>.
\<close>

theorem agent_invoke_session_counterexample:
  "req_session_id \<lparr>req_message = \<lparr>role = ''user'', content = [TextContent ''hi'']\<rparr>,
                    req_session_id = Some [], req_stream = None\<rparr> = Some []
   \<and> map_sum id resp_session_id
        (fst (agent_invoke (\<lambda>q. Inr ''answer'')
           \<lparr>req_message = \<lparr>role = ''user'', content = [TextContent ''hi'']\<rparr>,
            req_session_id = Some [], req_stream = None\<rparr> []))
       = Inr (Some ''default'')"
  by (simp add: agent_invoke_def get_text_content_def py_or_def)

text \<open>
  Claim C4, amended. For a request whose message has a text content block, when the
  coordinator call returns, the agent's \<open>invoke\<close> returns a response whose message has
  role \<open>assistant\<close> and exactly one content block, the text of the coordinator's result,
  whose session identifier is the request's when that is set and not empty and
  \<open>default\<close> when it is unset or empty, and which has a metadata dictionary. When the
  chat service returns, \<open>ChatController.chat\<close> returns a response whose message has role
  \<open>assistant\<close> and one text content block and whose session identifier is the request's.
\<close>

theorem invoke_and_chat_response_shape:
  "(get_text_content (req_message request) = Some query
      \<and> coordinator (enhanced_query query) = Inr result \<longrightarrow>
    (\<exists>meta. fst (agent_invoke coordinator request calls) =
       Inr \<lparr>resp_message = \<lparr>role = ''assistant'', content = [TextContent result]\<rparr>,
            resp_session_id =
              Some (case req_session_id request of
                      None \<Rightarrow> ''default''
                    | Some s \<Rightarrow> if s = [] then ''default'' else s),
            resp_metadata = Some meta\<rparr>))
   \<and> (run [] (py_or (latest_user_text request) ''Hello'') = Inr response_text \<longrightarrow>
    (\<exists>t. chat latest_user_text run request =
       Inr \<lparr>resp_message = \<lparr>role = ''assistant'', content = [TextContent t]\<rparr>,
            resp_session_id = req_session_id request,
            resp_metadata = None\<rparr>))"
  by (auto simp: agent_invoke_def chat_def from_text_def py_or_def Let_def
      split: option.splits)

theorem invoke_and_chat_response_shape_witness:
  "fst (agent_invoke (\<lambda>q. Inr ''answer'')
      \<lparr>req_message = \<lparr>role = ''user'', content = [TextContent ''hi'']\<rparr>,
       req_session_id = Some ''s1'', req_stream = None\<rparr> [])
     = Inr \<lparr>resp_message = \<lparr>role = ''assistant'', content = [TextContent ''answer'']\<rparr>,
            resp_session_id = Some ''s1'',
            resp_metadata = Some
              [(''agent_type'', MetaStr ''strands_multi_agent_chat''),
               (''strategy_used'', MetaStr ''coordinator''),
               (''agents_available'',
                  MetaList [''coordinator'', ''research'', ''analysis'', ''creative''])]\<rparr>
   \<and> chat (\<lambda>r. get_text_content (req_message r)) (\<lambda>h m. Inr ''<response> ok </response>'')
      \<lparr>req_message = \<lparr>role = ''user'', content = [TextContent ''hi'']\<rparr>,
       req_session_id = Some ''s1'', req_stream = None\<rparr>
     = Inr \<lparr>resp_message = \<lparr>role = ''assistant'', content = [TextContent ''ok'']\<rparr>,
            resp_session_id = Some ''s1'', resp_metadata = None\<rparr>"
proof -
  let ?r = "\<lparr>req_message = \<lparr>role = ''user'', content = [TextContent ''hi'']\<rparr>,
             req_session_id = Some ''s1'', req_stream = None\<rparr>"
  have t: "get_text_content (req_message ?r) = Some ''hi''"
    by (simp add: get_text_content_def)
  have s: "determine_agent_strategy ''hi'' = ''coordinator''"
    by (simp add: determine_agent_strategy_def py_lower_def lower_char_def upper_letters_def lower_letters_def any_keyword_in_def
        research_keywords_def analysis_keywords_def creative_keywords_def)
  have a: "fst (agent_invoke (\<lambda>q. Inr ''answer'') ?r []) =
      Inr \<lparr>resp_message = \<lparr>role = ''assistant'', content = [TextContent ''answer'']\<rparr>,
           resp_session_id = Some ''s1'',
           resp_metadata = Some
             [(''agent_type'', MetaStr ''strands_multi_agent_chat''),
              (''strategy_used'', MetaStr ''coordinator''),
              (''agents_available'',
                 MetaList [''coordinator'', ''research'', ''analysis'', ''creative''])]\<rparr>"
    by (simp add: agent_invoke_def get_text_content_def s py_or_def)
  have e: "extract_response ''<response> ok </response>'' = ''ok''"
    by (simp add: extract_response_def py_strip_def is_space_def)
  have c: "chat (\<lambda>r. get_text_content (req_message r)) (\<lambda>h m. Inr ''<response> ok </response>'') ?r
      = Inr \<lparr>resp_message = \<lparr>role = ''assistant'', content = [TextContent ''ok'']\<rparr>,
             resp_session_id = Some ''s1'', resp_metadata = None\<rparr>"
    by (simp add: chat_def e from_text_def)
  from invoke_and_chat_response_shape
      [where request = ?r and query = "''hi''" and coordinator = "\<lambda>q. Inr ''answer''"
         and result = "''answer''" and calls = "[]"
         and run = "\<lambda>h m. Inr ''<response> ok </response>''"
         and latest_user_text = "\<lambda>r. get_text_content (req_message r)"
         and response_text = "''<response> ok </response>''"]
    a c show ?thesis by simp
qed

section \<open>The agent's invoke_stream\<close>

lemma stream_events_caught:
  "streaming_raise conv converter chunks ending = Some (ExceptionInstance e) \<Longrightarrow>
   stream_events conv sid converter chunks ending
     = (converted_events conv converter chunks @ [ErrorEvent sid (exception_str e)], None)"
proof (induction chunks arbitrary: converter)
  case Nil
  then show ?case by simp
next
  case (Cons chunk chunks)
  show ?case
  proof (cases "conv converter chunk")
    case (Inl r)
    with Cons.prems show ?thesis by simp
  next
    case (Inr converted)
    obtain platform_events converter' where c: "converted = (platform_events, converter')"
      by (cases converted)
    with Inr Cons.prems have
      "streaming_raise conv converter' chunks ending = Some (ExceptionInstance e)"
      by simp
    from Cons.IH [OF this] Inr c show ?thesis by simp
  qed
qed

lemma stream_events_propagated:
  "streaming_raise conv converter chunks ending = Some (NotAnException name) \<Longrightarrow>
   stream_events conv sid converter chunks ending
     = (converted_events conv converter chunks, Some name)"
proof (induction chunks arbitrary: converter)
  case Nil
  then show ?case by simp
next
  case (Cons chunk chunks)
  show ?case
  proof (cases "conv converter chunk")
    case (Inl r)
    with Cons.prems show ?thesis by simp
  next
    case (Inr converted)
    obtain platform_events converter' where c: "converted = (platform_events, converter')"
      by (cases converted)
    with Inr Cons.prems have
      "streaming_raise conv converter' chunks ending = Some (NotAnException name)"
      by simp
    from Cons.IH [OF this] Inr c show ?thesis by simp
  qed
qed

text \<open>
  Claim C7, as stated, fails in two places. For a request whose session identifier is
  the empty string the error event carries \<open>default\<close>, not the identifier the request
  has. And an exception raised during streaming that is not an instance of \<open>Exception\<close>
  propagates: when the stream is cancelled after its first chunk, the one text delta
  is yielded, no \<open>ErrorEvent\<close> follows, and \<open>CancelledError\<close> leaves the generator.
\<close>

theorem invoke_stream_counterexample:
  "invoke_stream (\<lambda>sid. ()) (\<lambda>c (k::unit). Inr ([], c)) (\<lambda>q. ([], None)) None
      \<lparr>req_message = \<lparr>role = ''user'', content = []\<rparr>,
       req_session_id = Some [], req_stream = Some True\<rparr> []
     = (([ErrorEvent ''default'' ''No text content found in request message''], None), [])
   \<and> invoke_stream (\<lambda>sid. ()) (\<lambda>c (k::unit). Inr ([], c)) (\<lambda>q. ([], None)) None
      \<lparr>req_message = \<lparr>role = ''user'', content = []\<rparr>,
       req_session_id = Some [], req_stream = Some True\<rparr> []
     \<noteq> (([ErrorEvent [] ''No text content found in request message''], None), [])
   \<and> fst (invoke_stream (\<lambda>sid. ()) (\<lambda>c k. Inr ([TextDeltaEvent ''s1'' k], c))
      (\<lambda>q. ([''a''], Some (NotAnException ''CancelledError''))) None
      \<lparr>req_message = \<lparr>role = ''user'', content = [TextContent ''hi'']\<rparr>,
       req_session_id = Some ''s1'', req_stream = Some True\<rparr> [])
     = ([TextDeltaEvent ''s1'' ''a''], Some ''CancelledError'')"
  by (simp add: invoke_stream_def deliver_def get_text_content_def py_or_def)

text \<open>
  Claim C7, amended. For a request whose message has no text content block,
  \<open>invoke_stream\<close> yields exactly one event, an \<open>ErrorEvent\<close> with the text "No text content
  found in request message" and with the request's session identifier when that is set
  and not empty, \<open>default\<close> when it is unset or empty, and the coordinator is not invoked:
  its trace is unchanged; nothing propagates when the consumer reads to the end. For a
  request with a text content block and a consumer that reads to the end: when the
  coordinator's stream or the converter raises an instance \<open>e\<close> of \<open>Exception\<close>, the events
  of the chunks converted before are followed by a last \<open>ErrorEvent\<close> carrying that
  session identifier and \<open>str(e)\<close>, and nothing propagates; when what is raised is not an
  instance of \<open>Exception\<close>, the events of the chunks converted before are all that is
  yielded and the exception leaves the generator.
\<close>

theorem invoke_stream_error_events:
  "(get_text_content (req_message request) = None \<longrightarrow>
      (\<exists>propagated.
         invoke_stream new_converter conv stream_async thrown request calls =
           (([ErrorEvent (case req_session_id request of
                            None \<Rightarrow> ''default''
                          | Some s \<Rightarrow> if s = [] then ''default'' else s)
                ''No text content found in request message''], propagated), calls)
         \<and> (thrown = None \<longrightarrow> propagated = None)))
   \<and> (get_text_content (req_message request) = Some query
        \<and> stream_async (enhanced_query query) = (chunks, ending)
        \<and> streaming_raise conv
             (new_converter (py_or (req_session_id request) ''default'')) chunks ending
            = Some (ExceptionInstance e)
      \<longrightarrow>
      fst (invoke_stream new_converter conv stream_async None request calls) =
        (converted_events conv
           (new_converter (py_or (req_session_id request) ''default'')) chunks
         @ [ErrorEvent (case req_session_id request of
                          None \<Rightarrow> ''default''
                        | Some s \<Rightarrow> if s = [] then ''default'' else s)
              (exception_str e)], None))
   \<and> (get_text_content (req_message request) = Some query
        \<and> stream_async (enhanced_query query) = (chunks, ending)
        \<and> streaming_raise conv
             (new_converter (py_or (req_session_id request) ''default'')) chunks ending
            = Some (NotAnException name)
      \<longrightarrow>
      fst (invoke_stream new_converter conv stream_async None request calls) =
        (converted_events conv
           (new_converter (py_or (req_session_id request) ''default'')) chunks,
         Some name))"
proof -
  have sid: "py_or (req_session_id request) ''default'' =
      (case req_session_id request of
         None \<Rightarrow> ''default'' | Some s \<Rightarrow> if s = [] then ''default'' else s)"
    by (simp add: py_or_def)
  have no_text: "get_text_content (req_message request) = None \<longrightarrow>
      (\<exists>propagated.
         invoke_stream new_converter conv stream_async thrown request calls =
           (([ErrorEvent (case req_session_id request of
                            None \<Rightarrow> ''default''
                          | Some s \<Rightarrow> if s = [] then ''default'' else s)
                ''No text content found in request message''], propagated), calls)
         \<and> (thrown = None \<longrightarrow> propagated = None))"
    by (cases thrown) (auto simp: invoke_stream_def deliver_def Let_def sid)
  have caught: "get_text_content (req_message request) = Some query
        \<and> stream_async (enhanced_query query) = (chunks, ending)
        \<and> streaming_raise conv
             (new_converter (py_or (req_session_id request) ''default'')) chunks ending
            = Some (ExceptionInstance e)
      \<longrightarrow>
      fst (invoke_stream new_converter conv stream_async None request calls) =
        (converted_events conv
           (new_converter (py_or (req_session_id request) ''default'')) chunks
         @ [ErrorEvent (case req_session_id request of
                          None \<Rightarrow> ''default''
                        | Some s \<Rightarrow> if s = [] then ''default'' else s)
              (exception_str e)], None)"
    using stream_events_caught
      [of conv "new_converter (py_or (req_session_id request) ''default'')" chunks ending e
          "py_or (req_session_id request) ''default''"]
    by (auto simp: invoke_stream_def deliver_def Let_def sid)
  have propagates: "get_text_content (req_message request) = Some query
        \<and> stream_async (enhanced_query query) = (chunks, ending)
        \<and> streaming_raise conv
             (new_converter (py_or (req_session_id request) ''default'')) chunks ending
            = Some (NotAnException name)
      \<longrightarrow>
      fst (invoke_stream new_converter conv stream_async None request calls) =
        (converted_events conv
           (new_converter (py_or (req_session_id request) ''default'')) chunks,
         Some name)"
    using stream_events_propagated
      [of conv "new_converter (py_or (req_session_id request) ''default'')" chunks ending name
          "py_or (req_session_id request) ''default''"]
    by (auto simp: invoke_stream_def deliver_def Let_def)
  from no_text caught propagates show ?thesis by blast
qed

theorem invoke_stream_error_events_witness:
  "invoke_stream (\<lambda>sid. ()) (\<lambda>c k. Inr ([TextDeltaEvent ''s1'' k], c))
      (\<lambda>q. ([''a'', ''b''], Some (ExceptionInstance (OtherException ''boom'')))) None
      \<lparr>req_message = \<lparr>role = ''user'', content = [OtherContent ''img'']\<rparr>,
       req_session_id = Some ''s1'', req_stream = Some True\<rparr> [''earlier'']
     = (([ErrorEvent ''s1'' ''No text content found in request message''], None), [''earlier''])
   \<and> fst (invoke_stream (\<lambda>sid. ()) (\<lambda>c k. Inr ([TextDeltaEvent ''s1'' k], c))
      (\<lambda>q. ([''a'', ''b''], Some (ExceptionInstance (OtherException ''boom'')))) None
      \<lparr>req_message = \<lparr>role = ''user'', content = [TextContent ''hi'']\<rparr>,
       req_session_id = None, req_stream = Some True\<rparr> [])
     = ([TextDeltaEvent ''s1'' ''a'', TextDeltaEvent ''s1'' ''b''] @ [ErrorEvent ''default'' ''boom''],
        None)
   \<and> fst (invoke_stream (\<lambda>sid. ()) (\<lambda>c k. Inr ([TextDeltaEvent ''s1'' k], c))
      (\<lambda>q. ([''a'', ''b''], Some (NotAnException ''CancelledError''))) None
      \<lparr>req_message = \<lparr>role = ''user'', content = [TextContent ''hi'']\<rparr>,
       req_session_id = None, req_stream = Some True\<rparr> [])
     = ([TextDeltaEvent ''s1'' ''a'', TextDeltaEvent ''s1'' ''b''], Some ''CancelledError'')"
proof -
  let ?conv = "\<lambda>(c::unit) k. Inr ([TextDeltaEvent ''s1'' k], c) :: raised + stream_event list \<times> unit"
  let ?sa = "\<lambda>q::string. ([''a'', ''b''], Some (ExceptionInstance (OtherException ''boom'')))"
  let ?sc = "\<lambda>q::string. ([''a'', ''b''], Some (NotAnException ''CancelledError''))"
  let ?r1 = "\<lparr>req_message = \<lparr>role = ''user'', content = [OtherContent ''img'']\<rparr>,
              req_session_id = Some ''s1'', req_stream = Some True\<rparr>"
  let ?r2 = "\<lparr>req_message = \<lparr>role = ''user'', content = [TextContent ''hi'']\<rparr>,
              req_session_id = None, req_stream = Some True\<rparr>"
  have n: "get_text_content (req_message ?r1) = None"
    by (simp add: get_text_content_def)
  have t: "get_text_content (req_message ?r2) = Some ''hi''"
    by (simp add: get_text_content_def)
  have x: "streaming_raise ?conv ((\<lambda>sid. ()) (py_or (req_session_id ?r2) ''default''))
      [''a'', ''b''] (Some (ExceptionInstance (OtherException ''boom'')))
      = Some (ExceptionInstance (OtherException ''boom''))"
    by simp
  have y: "streaming_raise ?conv ((\<lambda>sid. ()) (py_or (req_session_id ?r2) ''default''))
      [''a'', ''b''] (Some (NotAnException ''CancelledError''))
      = Some (NotAnException ''CancelledError'')"
    by simp
  from invoke_stream_error_events
      [where request = ?r1 and new_converter = "\<lambda>sid. ()" and conv = ?conv
         and stream_async = ?sa and calls = "[''earlier'']" and thrown = None] n
  have first: "invoke_stream (\<lambda>sid. ()) ?conv ?sa None ?r1 [''earlier'']
      = (([ErrorEvent ''s1'' ''No text content found in request message''], None), [''earlier''])"
    by auto
  from invoke_stream_error_events
      [where request = ?r2 and query = "''hi''" and stream_async = ?sa
         and chunks = "[''a'', ''b'']"
         and ending = "Some (ExceptionInstance (OtherException ''boom''))"
         and conv = ?conv and new_converter = "\<lambda>sid. ()"
         and e = "OtherException ''boom''" and calls = "[]"] t x
  have second: "fst (invoke_stream (\<lambda>sid. ()) ?conv ?sa None ?r2 [])
      = ([TextDeltaEvent ''s1'' ''a'', TextDeltaEvent ''s1'' ''b'']
           @ [ErrorEvent ''default'' ''boom''], None)"
    by simp
  from invoke_stream_error_events
      [where request = ?r2 and query = "''hi''" and stream_async = ?sc
         and chunks = "[''a'', ''b'']"
         and ending = "Some (NotAnException ''CancelledError'')"
         and conv = ?conv and new_converter = "\<lambda>sid. ()"
         and name = "''CancelledError''" and calls = "[]"] t y
  have third: "fst (invoke_stream (\<lambda>sid. ()) ?conv ?sc None ?r2 [])
      = ([TextDeltaEvent ''s1'' ''a'', TextDeltaEvent ''s1'' ''b''], Some ''CancelledError'')"
    by simp
  from first second third show ?thesis by simp
qed

section \<open>Failures: caught or raised\<close>

text \<open>
  Claim C3, as stated, fails at the two entry points it names: the controller's \<open>invoke\<close>
  raises \<open>ValueError\<close> for a streaming request, and the agent's \<open>invoke\<close> raises
  \<open>ValueError\<close> for a message without text content.
\<close>

theorem entry_points_raise_counterexample:
  "fst (controller_invoke (agent_invoke (\<lambda>q. Inr ''answer''))
      \<lparr>req_message = \<lparr>role = ''user'', content = [TextContent ''hi'']\<rparr>,
       req_session_id = Some ''s1'', req_stream = Some True\<rparr> [])
     = Inl (ValueError ''Streaming requests should use the /stream endpoint'')
   \<and> fst (agent_invoke (\<lambda>q. Inr ''answer'')
      \<lparr>req_message = \<lparr>role = ''user'', content = []\<rparr>,
       req_session_id = Some ''s1'', req_stream = None\<rparr> [])
     = Inl (ValueError ''No text content found in request message'')"
  by (simp add: controller_invoke_def agent_invoke_def get_text_content_def)

text \<open>
  Claim C3, amended. \<open>read_file\<close> returns \<open>None\<close> when opening or reading the file
  raises; \<open>load_config\<close> returns \<open>None\<close> when opening, reading or parsing the
  configuration raises; \<open>search_knowledge_base\<close>, with a knowledge base configured,
  returns the text "Error accessing knowledge base: " followed by \<open>str(e)\<close> when the
  retrieval raises \<open>e\<close>. The entry points do raise: the controller's \<open>invoke\<close> raises
  \<open>ValueError\<close> for a request whose \<open>stream\<close> is \<open>True\<close>, the agent's \<open>invoke\<close> raises
  \<open>ValueError\<close> for a message without text content, and an exception of the coordinator
  call leaves the agent's \<open>invoke\<close> as it is.
\<close>

theorem failures_caught_or_raised:
  "(open_read fs file_path = Inl e1 \<longrightarrow> read_file fs file_path = None)
   \<and> ((\<exists>e. open_read fs cfg_path = Inl e)
        \<or> (\<exists>text e. open_read fs cfg_path = Inr text \<and> yaml_safe_load text = Inl e)
      \<longrightarrow> load_config fs yaml_safe_load cfg_path = None)
   \<and> (kb_id \<noteq> [] \<and> retrieve kb_id kb_query = Inl e2 \<longrightarrow>
        search_knowledge_base (Some kb_id) retrieve kb_query
          = ''Error accessing knowledge base: '' @ exception_str e2)
   \<and> (req_stream request = Some True \<longrightarrow>
        fst (controller_invoke agent request st)
          = Inl (ValueError ''Streaming requests should use the /stream endpoint''))
   \<and> (get_text_content (req_message request) = None \<longrightarrow>
        fst (agent_invoke coordinator request calls)
          = Inl (ValueError ''No text content found in request message''))
   \<and> (get_text_content (req_message request) = Some query
        \<and> coordinator (enhanced_query query) = Inl e3 \<longrightarrow>
        fst (agent_invoke coordinator request calls) = Inl e3)"
  by (auto simp: read_file_def load_config_def search_knowledge_base_def controller_invoke_def
      agent_invoke_def Let_def)

theorem failures_caught_or_raised_witness:
  "read_file (Map.empty(''a.txt'' \<mapsto> Unreadable (OtherException ''bad utf-8''))) ''a.txt'' = None
   \<and> load_config (Map.empty(''config.yml'' \<mapsto> File '':'')) (\<lambda>text. Inl (OtherException ''bad yaml''))
        ''config.yml'' = (None :: config option)
   \<and> search_knowledge_base (Some ''kb'') (\<lambda>kb_id q. Inl (OtherException ''timeout'')) ''what''
        = ''Error accessing knowledge base: timeout''
   \<and> fst (controller_invoke (agent_invoke (\<lambda>q. Inl (OtherException ''down'')))
        \<lparr>req_message = \<lparr>role = ''user'', content = []\<rparr>,
         req_session_id = None, req_stream = Some True\<rparr> [])
        = Inl (ValueError ''Streaming requests should use the /stream endpoint'')
   \<and> fst (agent_invoke (\<lambda>q. Inl (OtherException ''down''))
        \<lparr>req_message = \<lparr>role = ''user'', content = []\<rparr>,
         req_session_id = None, req_stream = Some True\<rparr> [])
        = Inl (ValueError ''No text content found in request message'')
   \<and> fst (agent_invoke (\<lambda>q. Inl (OtherException ''down''))
        \<lparr>req_message = \<lparr>role = ''user'', content = [TextContent ''hi'']\<rparr>,
         req_session_id = None, req_stream = None\<rparr> [])
        = Inl (OtherException ''down'')"
proof -
  let ?fs1 = "Map.empty(''a.txt'' \<mapsto> Unreadable (OtherException ''bad utf-8''))"
  let ?fs2 = "Map.empty(''config.yml'' \<mapsto> File '':'')"
  let ?yaml = "\<lambda>text::string. Inl (OtherException ''bad yaml'') :: py_exception + config option"
  let ?retrieve = "\<lambda>(kb_id::string) (q::string).
                     Inl (OtherException ''timeout'') :: py_exception + kb_result list option"
  let ?coordinator = "\<lambda>q::string. Inl (OtherException ''down'') :: py_exception + string"
  let ?r1 = "\<lparr>req_message = \<lparr>role = ''user'', content = []\<rparr>,
              req_session_id = None, req_stream = Some True\<rparr>"
  let ?r2 = "\<lparr>req_message = \<lparr>role = ''user'', content = [TextContent ''hi'']\<rparr>,
              req_session_id = None, req_stream = None\<rparr>"
  have a: "open_read ?fs1 ''a.txt'' = Inl (OtherException ''bad utf-8'')"
    by (simp add: open_read_def)
  have b: "open_read ?fs2 ''config.yml'' = Inr '':''"
    by (simp add: open_read_def)
  have c: "get_text_content (req_message ?r1) = None"
    by (simp add: get_text_content_def)
  have d: "get_text_content (req_message ?r2) = Some ''hi''"
    by (simp add: get_text_content_def)
  from failures_caught_or_raised
      [where fs = ?fs1 and file_path = "''a.txt''" and ?e1.0 = "OtherException ''bad utf-8''"
         and cfg_path = "''a.txt''" and yaml_safe_load = ?yaml
         and kb_id = "''kb''" and retrieve = ?retrieve and kb_query = "''what''"
         and ?e2.0 = "OtherException ''timeout''"
         and request = ?r1 and agent = "agent_invoke ?coordinator" and st = "[]"
         and coordinator = ?coordinator and calls = "[]"] a c
  have first: "read_file ?fs1 ''a.txt'' = None
      \<and> search_knowledge_base (Some ''kb'') ?retrieve ''what''
          = ''Error accessing knowledge base: timeout''
      \<and> fst (controller_invoke (agent_invoke ?coordinator) ?r1 [])
          = Inl (ValueError ''Streaming requests should use the /stream endpoint'')
      \<and> fst (agent_invoke ?coordinator ?r1 [])
          = Inl (ValueError ''No text content found in request message'')"
    by simp
  from failures_caught_or_raised
      [where fs = ?fs2 and cfg_path = "''config.yml''" and yaml_safe_load = ?yaml
         and request = ?r2 and coordinator = ?coordinator and calls = "[]"
         and query = "''hi''" and ?e3.0 = "OtherException ''down''"] b d
  have second: "load_config ?fs2 ?yaml ''config.yml'' = None
      \<and> fst (agent_invoke ?coordinator ?r2 []) = Inl (OtherException ''down'')"
    by simp
  from first second show ?thesis by simp
qed

section \<open>The run over the folders\<close>

lemma debug_log_is_not_output:
  "debug_log_path env folder_name \<noteq> output_file env file_prefix other"
proof
  assume "debug_log_path env folder_name = output_file env file_prefix other"
  then have "last (debug_log_path env folder_name) = last (output_file env file_prefix other)"
    by simp
  then show False
    by (simp add: debug_log_path_def output_file_def path_join_def)
qed

lemma call_settings_None_iff:
  "call_settings config = None \<longleftrightarrow>
     model_name config = None \<or> model_id config = None
     \<or> inference_temperature config = None \<or> inference_max_tokens config = None"
  by (simp add: call_settings_def split: option.splits)

lemma generate_summary_with_bedrock_calls:
  "w_calls (snd (generate_summary_with_bedrock env folder_name prompt_template config w)) =
     w_calls w @
       (case (output_file_prefix config, output_directory config,
              get_folder_content_summary env (w_fs w) folder_name config) of
          (Some file_prefix, Some directory, Inr (Some folder_content)) \<Rightarrow>
            if folder_content \<noteq> [] \<and> env_client env = None \<and> call_settings config \<noteq> None
            then [(folder_name,
                   full_prompt folder_name prompt_template file_prefix directory folder_content)]
            else []
        | _ \<Rightarrow> [])"
  by (auto simp: generate_summary_with_bedrock_def Let_def
      split: sum.splits option.splits prod.splits)

lemma generate_summary_file_calls:
  "w_calls (snd (generate_summary_file env folder_name prompt_template config w)) =
     w_calls w @ expected_calls env config prompt_template w folder_name"
proof (cases "output_file_prefix config")
  case None
  then show ?thesis by (simp add: generate_summary_file_def expected_calls_def)
next
  case (Some p0)
  show ?thesis
  proof (cases "w_fs w (output_file env p0 folder_name) = None")
    case False
    with Some show ?thesis
      by (auto simp: generate_summary_file_def expected_calls_def
          split: sum.splits option.splits)
  next
    case True
    obtain r w1 where g:
      "generate_summary_with_bedrock env folder_name prompt_template config w = (r, w1)"
      by (cases "generate_summary_with_bedrock env folder_name prompt_template config w")
    have same: "w_calls (snd (generate_summary_file env folder_name prompt_template config w))
        = w_calls w1"
      using Some True g
      by (auto simp: generate_summary_file_def split: sum.splits option.splits)
    from generate_summary_with_bedrock_calls [of env folder_name prompt_template config w] g
    have "w_calls w1 = w_calls w @ expected_calls env config prompt_template w folder_name"
      using Some True
      by (auto simp: expected_calls_def call_settings_None_iff
          split: sum.splits option.splits)
    with same show ?thesis by simp
  qed
qed

lemma expected_calls_folder:
  "map fst (expected_calls env config prompt_template w folder_name) = []
   \<or> map fst (expected_calls env config prompt_template w folder_name) = [folder_name]"
  by (auto simp: expected_calls_def split: sum.splits option.splits)

lemma process_folders_raise:
  "fst (generate_summary_file env folder prompt_template config w) = Inl e \<Longrightarrow>
   process_folders env prompt_template config (folder # folders) success_count w
     = (Inl e, snd (generate_summary_file env folder prompt_template config w))"
  by (cases "generate_summary_file env folder prompt_template config w") simp

lemma process_folders_go:
  assumes "fst (generate_summary_file env folder prompt_template config w) = Inr ok"
  shows "\<exists>count' w2.
           w_calls w2 = w_calls (snd (generate_summary_file env folder prompt_template config w))
           \<and> process_folders env prompt_template config (folder # folders) success_count w
               = process_folders env prompt_template config folders count' w2"
proof -
  obtain r w1 where g: "generate_summary_file env folder prompt_template config w = (r, w1)"
    by (cases "generate_summary_file env folder prompt_template config w")
  with assms have r: "r = Inr ok" by simp
  define w2 where "w2 = (if ok then w1\<lparr>w_slept := w_slept w1 + 5\<rparr> else w1)"
  define k where "k = (if ok then success_count + 1 else success_count)"
  have "process_folders env prompt_template config (folder # folders) success_count w
      = process_folders env prompt_template config folders k w2"
    using g r by (cases ok) (simp_all add: w2_def k_def)
  moreover have "w_calls w2 = w_calls w1" by (simp add: w2_def)
  ultimately show ?thesis using g by auto
qed

lemma process_folders_calls:
  "\<exists>new. w_calls (snd (process_folders env prompt_template config folders success_count w))
            = w_calls w @ new
         \<and> subseq (map fst new) folders"
proof (induction folders arbitrary: success_count w)
  case Nil
  then show ?case by simp
next
  case (Cons folder folders)
  let ?g = "generate_summary_file env folder prompt_template config w"
  let ?new1 = "expected_calls env config prompt_template w folder"
  have c: "w_calls (snd ?g) = w_calls w @ ?new1"
    by (rule generate_summary_file_calls)
  have s1: "subseq (map fst ?new1) [folder]"
    using expected_calls_folder [of env config prompt_template w folder] by auto
  show ?case
  proof (cases "fst ?g")
    case (Inl e)
    from process_folders_raise [OF Inl, of folders success_count] c
    have "w_calls (snd (process_folders env prompt_template config
        (folder # folders) success_count w)) = w_calls w @ ?new1" by simp
    moreover from s1 have "subseq (map fst ?new1) ([folder] @ folders)"
      by (metis list_emb_append_mono list_emb_Nil append_Nil2)
    ultimately show ?thesis by auto
  next
    case (Inr ok)
    from process_folders_go [OF Inr, of folders success_count]
    obtain k w2 where c2: "w_calls w2 = w_calls (snd ?g)"
      and run: "process_folders env prompt_template config (folder # folders) success_count w
                  = process_folders env prompt_template config folders k w2"
      by blast
    from Cons.IH [of k w2] obtain new2 where
      n2: "w_calls (snd (process_folders env prompt_template config folders k w2))
             = w_calls w2 @ new2"
      and s2: "subseq (map fst new2) folders" by blast
    have "subseq (map fst ?new1 @ map fst new2) ([folder] @ folders)"
      using s1 s2 by (rule list_emb_append_mono)
    with run n2 c2 c show ?thesis by auto
  qed
qed

lemma process_folders_head:
  "\<exists>later. w_calls (snd (process_folders env prompt_template config (folder # folders)
                           success_count w))
              = w_calls w @ expected_calls env config prompt_template w folder @ later
           \<and> subseq (map fst later) folders"
proof -
  let ?g = "generate_summary_file env folder prompt_template config w"
  have c: "w_calls (snd ?g)
      = w_calls w @ expected_calls env config prompt_template w folder"
    by (rule generate_summary_file_calls)
  show ?thesis
  proof (cases "fst ?g")
    case (Inl e)
    from process_folders_raise [OF Inl, of folders success_count] c
    have "w_calls (snd (process_folders env prompt_template config
        (folder # folders) success_count w))
        = w_calls w @ expected_calls env config prompt_template w folder @ []" by simp
    moreover have "subseq (map fst ([] :: (string \<times> string) list)) folders" by simp
    ultimately show ?thesis by blast
  next
    case (Inr ok)
    from process_folders_go [OF Inr, of folders success_count]
    obtain k w2 where c2: "w_calls w2 = w_calls (snd ?g)"
      and run: "process_folders env prompt_template config (folder # folders) success_count w
                  = process_folders env prompt_template config folders k w2"
      by blast
    from process_folders_calls [of env prompt_template config folders k w2] obtain later where
      "w_calls (snd (process_folders env prompt_template config folders k w2))
         = w_calls w2 @ later" and "subseq (map fst later) folders" by blast
    with run c2 c show ?thesis by auto
  qed
qed

lemma process_folders_append:
  "process_folders env prompt_template config (pre @ post) success_count w =
     (case process_folders env prompt_template config pre success_count w of
        (Inl e, w1) \<Rightarrow> (Inl e, w1)
      | (Inr k, w1) \<Rightarrow> process_folders env prompt_template config post k w1)"
proof (induction pre arbitrary: success_count w)
  case Nil
  then show ?case by simp
next
  case (Cons folder pre)
  obtain r w1 where g: "generate_summary_file env folder prompt_template config w = (r, w1)"
    by (cases "generate_summary_file env folder prompt_template config w")
  show ?case
  proof (cases r)
    case (Inl e)
    with g show ?thesis by simp
  next
    case (Inr ok)
    with g Cons.IH show ?thesis by (cases ok) simp_all
  qed
qed

text \<open>
  Claim C5, as stated, fails for a folder whose summary file exists already: the folder
  is in the processed list and no call is made for it.
\<close>

theorem one_call_per_folder_counterexample:
  "w_calls (snd (process_folders (example_env (Inr ''# SUMMARY'')) ''template'' example_config
      [''docs''] 0
      (example_world\<lparr>w_fs := Map.empty(''/repo/my-analysis/SUMMARY-docs.md'' \<mapsto> File ''old'')\<rparr>)))
     = []"
  by (simp add: generate_summary_file_def output_file_def analysis_dir_def path_join_def
      example_env_def example_config_def example_world_def)

text \<open>
  Claim C5, amended. The loop takes the entries of the processed list in order until an
  exception leaves it; the entries behind that one are not processed. For every entry
  the loop reaches, at most one prompt is assembled and the endpoint is called at most
  once: exactly once, for that folder and with the prompt assembled from its content,
  when at that moment no summary file exists for the folder, its content summary is
  there and not empty, the configuration has the output prefix and directory, the model
  name and id, the temperature and the token limit, and the client can be created; and
  not at all otherwise. So the calls of a run are, entry by entry and in the order of
  the list, the calls of \<open>expected_calls\<close> in the world the loop has reached.
\<close>

theorem calls_per_folder:
  "w_calls (snd (generate_summary_file env folder_name prompt_template config w)) =
     w_calls w @ expected_calls env config prompt_template w folder_name
   \<and> (process_folders env prompt_template config pre success_count w = (Inr k, w1) \<longrightarrow>
        (\<exists>earlier later.
           w_calls w1 = w_calls w @ earlier \<and> subseq (map fst earlier) pre
           \<and> w_calls (snd (process_folders env prompt_template config
                             (pre @ folder_name # post) success_count w))
               = w_calls w1 @ expected_calls env config prompt_template w1 folder_name @ later
           \<and> subseq (map fst later) post))
   \<and> (process_folders env prompt_template config pre success_count w = (Inl e, w1) \<longrightarrow>
        process_folders env prompt_template config (pre @ post) success_count w = (Inl e, w1))"
proof -
  have reached: "\<exists>earlier later.
      w_calls w1 = w_calls w @ earlier \<and> subseq (map fst earlier) pre
      \<and> w_calls (snd (process_folders env prompt_template config
                        (pre @ folder_name # post) success_count w))
          = w_calls w1 @ expected_calls env config prompt_template w1 folder_name @ later
      \<and> subseq (map fst later) post"
    if p: "process_folders env prompt_template config pre success_count w = (Inr k, w1)"
  proof -
    from process_folders_calls [of env prompt_template config pre success_count w] p
    obtain earlier where e: "w_calls w1 = w_calls w @ earlier"
      and se: "subseq (map fst earlier) pre" by auto
    have "process_folders env prompt_template config (pre @ folder_name # post) success_count w
        = process_folders env prompt_template config (folder_name # post) k w1"
      using p by (simp add: process_folders_append)
    with process_folders_head [of env prompt_template config folder_name post k w1]
    obtain later where
      "w_calls (snd (process_folders env prompt_template config
                       (pre @ folder_name # post) success_count w))
         = w_calls w1 @ expected_calls env config prompt_template w1 folder_name @ later"
      and "subseq (map fst later) post" by auto
    with e se show ?thesis by blast
  qed
  have stopped: "process_folders env prompt_template config (pre @ post) success_count w
      = (Inl e, w1)"
    if "process_folders env prompt_template config pre success_count w = (Inl e, w1)"
    using that by (simp add: process_folders_append)
  from generate_summary_file_calls reached stopped show ?thesis by blast
qed

theorem calls_per_folder_witness:
  "fst (process_folders (example_env (Inr ''# SUMMARY'')) ''Summarise [codebase-folder-name]''
          example_config [''a''] 0 example_world) = Inr 1
   \<and> map fst (w_calls (snd (process_folders (example_env (Inr ''# SUMMARY''))
          ''Summarise [codebase-folder-name]'' example_config [''a'', ''docs''] 0 example_world)))
       = [''a'', ''docs'']
   \<and> process_folders (example_env (Inr ''# SUMMARY'')) ''Summarise [codebase-folder-name]''
          example_config [''bad'', ''good''] 0
          (example_world\<lparr>w_fs := Map.empty(''/repo/bad/README.md'' \<mapsto>
                                   Unreadable (OtherException ''UnicodeDecodeError''))\<rparr>)
       = (Inl (OtherException ''TypeError''),
          example_world\<lparr>w_fs := Map.empty(''/repo/bad/README.md'' \<mapsto>
                                   Unreadable (OtherException ''UnicodeDecodeError''))\<rparr>)"
proof -
  let ?env = "example_env (Inr ''# SUMMARY'')"
  let ?template = "''Summarise [codebase-folder-name]''"
  let ?bad = "example_world\<lparr>w_fs := Map.empty(''/repo/bad/README.md'' \<mapsto>
                               Unreadable (OtherException ''UnicodeDecodeError''))\<rparr>"
  have one: "fst (process_folders ?env ?template example_config [''a''] 0 example_world) = Inr 1"
    by code_simp
  then obtain w1 where reached:
    "process_folders ?env ?template example_config [''a''] 0 example_world = (Inr 1, w1)"
    by (cases "process_folders ?env ?template example_config [''a''] 0 example_world") simp
  have two: "map fst (w_calls (snd (process_folders ?env ?template example_config
      [''a'', ''docs''] 0 example_world))) = [''a'', ''docs'']"
    by code_simp
  have raised: "process_folders ?env ?template example_config [''bad''] 0 ?bad
      = (Inl (OtherException ''TypeError''), ?bad)"
    by (simp add: generate_summary_file_def generate_summary_with_bedrock_def
        get_folder_content_summary_def folder_assembly_def filter_files_def list_files_def
        read_file_def open_read_def output_file_def analysis_dir_def path_join_def
        example_env_def example_config_def example_world_def Let_def get_or_def
        no_file_selection_def)
  from calls_per_folder
      [where env = ?env and prompt_template = ?template and config = example_config
         and pre = "[''a'']" and success_count = 0 and w = example_world and k = 1
         and ?w1.0 = w1 and folder_name = "''docs''" and post = "[]"] reached
  have "\<exists>earlier later.
      w_calls w1 = w_calls example_world @ earlier \<and> subseq (map fst earlier) [''a'']
      \<and> w_calls (snd (process_folders ?env ?template example_config ([''a''] @ [''docs''])
                        0 example_world))
          = w_calls w1 @ expected_calls ?env example_config ?template w1 ''docs'' @ later
      \<and> subseq (map fst later) []"
    by blast
  from calls_per_folder
      [where env = ?env and prompt_template = ?template and config = example_config
         and pre = "[''bad'']" and success_count = 0 and w = ?bad
         and e = "OtherException ''TypeError''" and ?w1.0 = ?bad and post = "[''good'']"]
    raised
  have stopped: "process_folders ?env ?template example_config ([''bad''] @ [''good'']) 0 ?bad
      = (Inl (OtherException ''TypeError''), ?bad)"
    by blast
  from one two stopped show ?thesis by simp
qed

section \<open>A failed call of the endpoint\<close>

text \<open>
  Claim C6. When the call of the endpoint for a folder fails (the call is reached: the
  configuration has its keys, the folder has no summary file yet, its content summary
  is there and the client is created; and the call raises),
  \<open>generate_summary_with_bedrock\<close> returns \<open>None\<close> after that one call,
  \<open>generate_summary_file\<close> returns \<open>False\<close> and there is still no summary file for the
  folder (no file at all is written unless the debug log is on), the success count and
  the seconds slept are as before, and the loop goes on with the remaining folders as
  it would have from the world after the call.
\<close>

theorem failed_call_ends_folder_only:
  assumes keys: "output_file_prefix config = Some report_prefix"
                "output_directory config = Some report_directory"
    and no_file: "w_fs w (output_file env report_prefix folder_name) = None"
    and summary: "get_folder_content_summary env (w_fs w) folder_name config
                    = Inr (Some folder_content)"
    and not_empty: "folder_content \<noteq> []"
    and client: "env_client env = None"
    and settings: "model_name config = Some name" "model_id config = Some model"
                  "inference_temperature config = Some temperature"
                  "inference_max_tokens config = Some max_toks"
    and fails: "env_converse env (map snd (w_calls w)) model temperature max_toks
                  (full_prompt folder_name prompt_template report_prefix report_directory
                     folder_content) = Inl e"
  shows "\<exists>w'. generate_summary_with_bedrock env folder_name prompt_template config w
                 = (Inr None, w')
             \<and> w_calls w' = w_calls w
                 @ [(folder_name, full_prompt folder_name prompt_template report_prefix
                                    report_directory folder_content)]
             \<and> w_fs w' (output_file env report_prefix folder_name) = None
             \<and> (\<not> (debug_enabled config = Some True \<and> debug_print_prompt config = Some True)
                  \<longrightarrow> w_fs w' = w_fs w)
             \<and> w_slept w' = w_slept w
             \<and> generate_summary_file env folder_name prompt_template config w = (Inr False, w')
             \<and> process_folders env prompt_template config (folder_name # folders) success_count w
                 = process_folders env prompt_template config folders success_count w'"
proof -
  let ?prompt = "full_prompt folder_name prompt_template report_prefix report_directory
                   folder_content"
  define w1 where "w1 =
    (if debug_enabled config = Some True \<and> debug_print_prompt config = Some True
     then w\<lparr>w_fs := (w_fs w)(debug_log_path env folder_name \<mapsto>
                        File (debug_log_text env folder_name ?prompt))\<rparr>
     else w)"
  define w' where "w' = w1\<lparr>w_calls := w_calls w1 @ [(folder_name, ?prompt)]\<rparr>"
  have c1: "w_calls w1 = w_calls w" by (simp add: w1_def)
  have s: "call_settings config = Some (model, temperature, max_toks)"
    using settings by (simp add: call_settings_def)
  have g: "generate_summary_with_bedrock env folder_name prompt_template config w = (Inr None, w')"
    using summary not_empty fails keys client s
    by (simp add: generate_summary_with_bedrock_def Let_def w1_def [symmetric] c1 w'_def)
  have f1: "w_fs w1 (output_file env report_prefix folder_name) = None"
    using no_file debug_log_is_not_output [of env folder_name report_prefix folder_name]
    by (auto simp: w1_def)
  have f: "w_fs w' (output_file env report_prefix folder_name) = None"
    using f1 by (simp add: w'_def)
  have gsf: "generate_summary_file env folder_name prompt_template config w = (Inr False, w')"
    using no_file g keys by (simp add: generate_summary_file_def)
  have "w_calls w' = w_calls w @ [(folder_name, ?prompt)]"
    by (simp add: w'_def c1)
  moreover have "\<not> (debug_enabled config = Some True \<and> debug_print_prompt config = Some True)
      \<longrightarrow> w_fs w' = w_fs w"
    by (simp add: w'_def w1_def)
  moreover have "w_slept w' = w_slept w" by (simp add: w'_def w1_def)
  moreover have "process_folders env prompt_template config (folder_name # folders) success_count w
      = process_folders env prompt_template config folders success_count w'"
    using gsf by simp
  ultimately show ?thesis using g f gsf by blast
qed

theorem failed_call_ends_folder_only_witness:
  "fst (generate_summary_file (example_env (Inl (OtherException ''ThrottlingException'')))
          ''docs'' ''Summarise [codebase-folder-name]'' example_config example_world) = Inr False
   \<and> w_fs (snd (generate_summary_file (example_env (Inl (OtherException ''ThrottlingException'')))
          ''docs'' ''Summarise [codebase-folder-name]'' example_config example_world)) = Map.empty
   \<and> map fst (w_calls (snd (generate_summary_file
          (example_env (Inl (OtherException ''ThrottlingException'')))
          ''docs'' ''Summarise [codebase-folder-name]'' example_config example_world))) = [''docs'']
   \<and> fst (process_folders (example_env (Inl (OtherException ''ThrottlingException'')))
          ''Summarise [codebase-folder-name]'' example_config [''docs''] 0 example_world) = Inr 0"
proof -
  let ?env = "example_env (Inl (OtherException ''ThrottlingException''))"
  let ?template = "''Summarise [codebase-folder-name]''"
  let ?content = "summary_head ''docs'' ''No README.md found.'' [] [] [] no_file_selection"
  have keys: "output_file_prefix example_config = Some ''SUMMARY-''"
    "output_directory example_config = Some ''my-analysis''"
    by (simp_all add: example_config_def)
  have no_file: "w_fs example_world (output_file ?env ''SUMMARY-'' ''docs'') = None"
    by (simp add: example_world_def)
  have summary: "get_folder_content_summary ?env (w_fs example_world) ''docs'' example_config
      = Inr (Some ?content)"
    by (simp add: get_folder_content_summary_def folder_assembly_def example_env_def
        example_world_def example_config_def list_files_def filter_files_def
        key_file_contents_def get_or_def no_file_selection_def py_take_def Let_def)
  have not_empty: "?content \<noteq> []"
    by (simp add: summary_head_def Let_def)
  have client: "env_client ?env = None"
    by (simp add: example_env_def)
  have settings: "model_name example_config = Some ''Model''"
    "model_id example_config = Some ''model-1''"
    "inference_temperature example_config = Some ''0.0''"
    "inference_max_tokens example_config = Some 4096"
    by (simp_all add: example_config_def)
  have fails: "env_converse ?env (map snd (w_calls example_world)) ''model-1'' ''0.0'' 4096
      (full_prompt ''docs'' ?template ''SUMMARY-'' ''my-analysis'' ?content)
      = Inl (OtherException ''ThrottlingException'')"
    by (simp add: example_env_def)
  have debug_off: "\<not> (debug_enabled example_config = Some True
      \<and> debug_print_prompt example_config = Some True)"
    by (simp add: example_config_def)
  from failed_call_ends_folder_only
      [OF keys no_file summary not_empty client settings fails, of "[]" 0]
  obtain w' where
    gsf: "generate_summary_file ?env ''docs'' ?template example_config example_world
             = (Inr False, w')"
    and calls: "w_calls w' = w_calls example_world
             @ [(''docs'', full_prompt ''docs'' ?template ''SUMMARY-'' ''my-analysis'' ?content)]"
    and unchanged: "\<not> (debug_enabled example_config = Some True
             \<and> debug_print_prompt example_config = Some True) \<longrightarrow> w_fs w' = w_fs example_world"
    and loop: "process_folders ?env ?template example_config [''docs''] 0 example_world
             = process_folders ?env ?template example_config [] 0 w'"
    by blast
  from unchanged debug_off have "w_fs w' = Map.empty" by (simp add: example_world_def)
  with gsf calls loop show ?thesis by (simp add: example_world_def)
qed

section \<open>The token budget of the folder content\<close>

text \<open>
  The loops over notebook cells and over Python, YAML, Terraform, shell and text files
  keep the counter within the budget (for file names of at most 1000 characters, whose
  headers the loops count without a test).
\<close>

lemma add_cells_within_budget:
  "tokens_used \<le> max_tokens \<Longrightarrow>
   snd (snd (add_cells cells (content_summary, tokens_used))) \<le> max_tokens"
  by (induction cells "(content_summary, tokens_used)" arbitrary: content_summary tokens_used
      rule: add_cells.induct) (auto simp: Let_def)

lemma add_code_files_within_budget:
  assumes "\<forall>path \<in> set paths. length (basename path) \<le> 1000"
    and "tokens_used \<le> max_tokens"
  shows "snd (add_code_files fence limit_note fs max_lines paths (content_summary, tokens_used))
           \<le> max_tokens"
  using assms
proof (induction paths arbitrary: content_summary tokens_used)
  case Nil
  then show ?case by simp
next
  case (Cons path paths)
  have "length (basename path) \<le> 1000"
    using Cons.prems(1) by simp
  then have small: "length (''### '' @ basename path @ nl @ nl) div 4 \<le> 252"
    by simp
  have rest: "\<And>cs t. t \<le> max_tokens \<Longrightarrow>
      snd (add_code_files fence limit_note fs max_lines paths (cs, t)) \<le> max_tokens"
    using Cons.IH Cons.prems(1) by simp
  show ?case
  proof (cases "tokens_used > 171000")
    case True
    with Cons.prems(2) show ?thesis by simp
  next
    case False
    then have h: "tokens_used + length (''### '' @ basename path @ nl @ nl) div 4 \<le> max_tokens"
      using small by (simp add: max_tokens_def)
    show ?thesis
      using False Cons.prems(2) h rest
      by (auto simp: Let_def split: option.splits simp del: append.simps length_append)
  qed
qed

text \<open>
  Claim C2. The claim asks that a file's content is appended only when the counter plus
  the block's estimated tokens stays within the budget of 190000, as the loops over
  Python, YAML, Terraform, shell and text files and over notebook cells do. The loop
  over markdown files appends without that test. For a folder \<open>docs\<close> without a README
  whose only file is \<open>NOTES.md\<close> with 800000 characters, under a configuration without a
  file selection, the whole text is appended: the summary has 800344 characters and the
  counter ends at 200085.
\<close>

theorem markdown_file_exceeds_budget:
  "map_sum id (map_option (\<lambda>(content_summary, tokens_used). (length content_summary, tokens_used)))
     (folder_assembly
        ((example_env (Inr ''ok''))\<lparr>env_walk := (\<lambda>fs directory. [''/repo/docs/NOTES.md''])\<rparr>)
        (Map.empty(''/repo/docs/NOTES.md'' \<mapsto> File (replicate 800000 CHR ''x'')))
        ''docs'' example_config)
     = Inr (Some (800344, 200085))
   \<and> max_tokens < 200085"
  by (simp add: folder_assembly_def example_env_def example_config_def path_join_def
      list_files_def filter_files_def key_file_contents_def read_file_def open_read_def
      summary_head_def Let_def no_file_selection_def get_or_def py_endswith_def
      is_yaml_file_def is_other_file_def py_take_def py_drop_def listing_def bullets_def
      basename_def digit_char_def max_tokens_def)

section \<open>Cleaning the model's response\<close>

lemma split_first_Some: "split_first sub s = Some (front, back) \<Longrightarrow> s = front @ sub @ back"
proof (induction s arbitrary: front)
  case Nil
  then show ?case by (simp split: if_splits)
next
  case (Cons c cs)
  show ?case
  proof (cases "py_startswith (c # cs) sub")
    case True
    then obtain r where r: "c # cs = sub @ r" by (auto simp: py_startswith_iff)
    from True Cons.prems have "front = []" "back = drop (length sub) (c # cs)" by auto
    with r show ?thesis by simp
  next
    case False
    with Cons.prems obtain f where "split_first sub cs = Some (f, back)" "front = c # f"
      by auto
    with Cons.IH [of f] show ?thesis by simp
  qed
qed

lemma split_first_found: "py_in sub s \<Longrightarrow> split_first sub s \<noteq> None"
  by (induction s) auto

lemma cut_before_heading:
  assumes "py_in sub s"
  shows "\<exists>back. py_drop (py_find sub s) s = sub @ back"
proof -
  from split_first_found [OF assms] obtain a b where
    f: "split_first sub s = Some (a, b)" by auto
  from split_first_Some [OF f] have "s = a @ sub @ b" .
  then have "drop (length a) s = sub @ b" by simp
  with f show ?thesis by (simp add: py_find_def py_drop_def)
qed

lemma split_char_not_Nil: "split_char sep s \<noteq> []"
  by (induction s) (auto split: list.splits)

lemma py_join_Cons_char:
  "py_join sep ((c # piece) # pieces) = c # py_join sep (piece # pieces)"
  by (cases pieces) simp_all

lemma join_split_char: "py_join [sep] (split_char sep s) = s"
proof (induction s)
  case Nil
  then show ?case by simp
next
  case (Cons c cs)
  obtain piece pieces where p: "split_char sep cs = piece # pieces"
    using split_char_not_Nil [of sep cs] by (cases "split_char sep cs") auto
  with Cons show ?case by (simp add: py_join_Cons_char)
qed

lemma split_char_first_line:
  "sep \<notin> set p \<Longrightarrow> \<exists>piece pieces. split_char sep (p @ t) = (p @ piece) # pieces"
proof (induction p)
  case Nil
  then show ?case using split_char_not_Nil [of sep t] by (cases "split_char sep t") auto
next
  case (Cons c p)
  then obtain piece pieces where "split_char sep (p @ t) = (p @ piece) # pieces" by auto
  with Cons.prems show ?case by auto
qed

lemma re_sub_keeps_prefix:
  "(\<And>c t. c \<in> set p \<Longrightarrow> match_at (c # t) = None) \<Longrightarrow>
   re_sub match_at (p @ t) = p @ re_sub match_at t"
  by (induction p) simp_all

lemma empty_fence_at_other: "c \<noteq> CHR 0x60 \<Longrightarrow> empty_fence_at (c # t) = None"
  by (simp add: empty_fence_at_def)

lemma split_mermaid_at_other: "c \<noteq> CHR 0x60 \<Longrightarrow> split_mermaid_at (c # t) = None"
  by (simp add: split_mermaid_at_def)

lemma bare_mermaid_at_other: "c \<noteq> CHR 0x0A \<Longrightarrow> bare_mermaid_at (c # t) = None"
  by (simp add: bare_mermaid_at_def)

lemma mermaid_word_at_other: "c \<noteq> CHR ''m'' \<Longrightarrow> mermaid_word_at (c # t) = None"
  by (simp add: mermaid_word_at_def)

lemma join_split_mermaid_keeps_heading:
  "\<exists>t'. join_split_mermaid (''# SUMMARY'' @ t) = ''# SUMMARY'' @ t'"
proof (induction "''# SUMMARY'' @ t" arbitrary: t rule: join_split_mermaid.induct)
  case 1
  show ?case
  proof (cases "re_search split_mermaid_at (''# SUMMARY'' @ t)")
    case True
    have r: "re_sub split_mermaid_at (''# SUMMARY'' @ t)
        = ''# SUMMARY'' @ re_sub split_mermaid_at t"
      by (rule re_sub_keeps_prefix) (auto simp: split_mermaid_at_other)
    from "1" [OF True r] obtain t' where
      "join_split_mermaid (''# SUMMARY'' @ re_sub split_mermaid_at t) = ''# SUMMARY'' @ t'"
      by blast
    with True r show ?thesis
      by (subst join_split_mermaid.simps) (simp del: append.simps)
  next
    case False
    then show ?thesis by (subst join_split_mermaid.simps) simp
  qed
qed

lemma py_strip_first: "\<not> is_space c \<Longrightarrow> \<exists>r. py_strip (c # s) = c # r"
  by (simp add: py_strip_def dropWhile_append3)

lemma fix_lines_keeps_first:
  "py_strip x \<noteq> ''```'' \<Longrightarrow> \<exists>r. fix_lines lines (x # res) flag = x # r"
proof (induction lines arbitrary: res flag)
  case Nil
  then show ?case by simp
next
  case (Cons raw lines)
  have a: "\<And>y flag'. \<exists>r. fix_lines lines (x # res @ [y]) flag' = x # r"
    using Cons.IH [OF Cons.prems] by blast
  have b: "\<And>y z flag'. \<exists>r. fix_lines lines (x # res @ [y, z]) flag' = x # r"
    using Cons.IH [OF Cons.prems] by blast
  have c: "\<And>flag'. \<exists>r. fix_lines lines (x # res) flag' = x # r"
    using Cons.IH [OF Cons.prems] by blast
  have d: "\<And>y flag'. res \<noteq> [] \<Longrightarrow> \<exists>r. fix_lines lines (x # butlast res @ [y]) flag' = x # r"
    using Cons.IH [OF Cons.prems] by blast
  show ?case
    using a b c d Cons.prems
    by (auto simp: Let_def split: list.splits)
qed

lemma fix_lines_plain_first:
  "py_strip x = CHR ''#'' # s0 \<Longrightarrow> fix_lines (x # later) [] False = fix_lines later [x] False"
  by (simp add: Let_def)

lemma py_join_first: "\<exists>t. py_join sep (x # r) = x @ t"
  by (cases r) auto

text \<open>
  Claim C9. For every response that contains \<open># SUMMARY\<close>, the result of
  \<open>clean_model_response\<close> begins with \<open># SUMMARY\<close>: the text before the first occurrence
  of the heading is cut, and none of the later passes writes anything before it.
\<close>

theorem clean_model_response_keeps_heading:
  assumes "occurs_in ''# SUMMARY'' response"
  shows "\<exists>rest. clean_model_response response = ''# SUMMARY'' @ rest"
proof -
  from assms have found: "py_in ''# SUMMARY'' response" by (simp add: py_in_iff)
  from cut_before_heading [OF found] obtain t1 where
    r1: "py_drop (py_find ''# SUMMARY'' response) response = ''# SUMMARY'' @ t1" by blast
  obtain piece pieces where
    l1: "split_char (CHR 0x0A) (''# SUMMARY'' @ t1) = (''# SUMMARY'' @ piece) # pieces"
    using split_char_first_line [of "CHR 0x0A" "''# SUMMARY''" t1] by auto
  have i1: "first_index (\<lambda>line. py_startswith line ''# SUMMARY'')
      ((''# SUMMARY'' @ piece) # pieces) = Some 0"
    by simp
  have r2: "py_join nl (drop 0 (split_char (CHR 0x0A) (''# SUMMARY'' @ t1))) = ''# SUMMARY'' @ t1"
    by (simp only: drop_0 join_split_char)
  have r3: "re_sub empty_fence_at (''# SUMMARY'' @ t1) = ''# SUMMARY'' @ re_sub empty_fence_at t1"
    by (rule re_sub_keeps_prefix) (auto simp: empty_fence_at_other)
  obtain t4 where r4: "join_split_mermaid (''# SUMMARY'' @ re_sub empty_fence_at t1)
      = ''# SUMMARY'' @ t4"
    using join_split_mermaid_keeps_heading by blast
  have w5: "mermaid_word_at (''# SUMMARY'' @ t4) = None"
    by (simp add: mermaid_word_at_other)
  have s5: "re_sub bare_mermaid_at (''# SUMMARY'' @ t4) = ''# SUMMARY'' @ re_sub bare_mermaid_at t4"
    by (rule re_sub_keeps_prefix) (auto simp: bare_mermaid_at_other)
  have r5: "fence_bare_mermaid (''# SUMMARY'' @ t4) = ''# SUMMARY'' @ re_sub bare_mermaid_at t4"
    by (simp only: fence_bare_mermaid_def w5 s5 option.case)
  obtain line0 later where
    l5: "split_char (CHR 0x0A) (''# SUMMARY'' @ re_sub bare_mermaid_at t4)
           = (''# SUMMARY'' @ line0) # later"
    using split_char_first_line [of "CHR 0x0A" "''# SUMMARY''" "re_sub bare_mermaid_at t4"]
    by auto
  obtain s0 where s0: "py_strip (''# SUMMARY'' @ line0) = CHR ''#'' # s0"
    using py_strip_first [of "CHR ''#''" "'' SUMMARY'' @ line0"] by (auto simp: is_space_def)
  have step: "fix_lines ((''# SUMMARY'' @ line0) # later) [] False
      = fix_lines later [''# SUMMARY'' @ line0] False"
    using s0 by (rule fix_lines_plain_first)
  obtain r where f: "fix_lines later [''# SUMMARY'' @ line0] False = (''# SUMMARY'' @ line0) # r"
    using fix_lines_keeps_first [of "''# SUMMARY'' @ line0" later "[]" False] s0 by auto
  obtain t where j: "py_join nl ((''# SUMMARY'' @ line0) # r) = (''# SUMMARY'' @ line0) @ t"
    using py_join_first by blast
  have "clean_model_response response = (''# SUMMARY'' @ line0) @ t"
    unfolding clean_model_response_def Let_def
    by (simp only: found if_True r1 l1 i1 option.case r2 [simplified l1] r3 r4 r5 l5 step f j)
  then show ?thesis by simp
qed

theorem clean_model_response_keeps_heading_witness:
  "occurs_in ''# SUMMARY''
     (''Intro'' @ nl @ ''# SUMMARY of docs'' @ nl @ ''mermaid'' @ nl @ ''graph TD'' @ nl
        @ ''A --> B'')
   \<and> clean_model_response
     (''Intro'' @ nl @ ''# SUMMARY of docs'' @ nl @ ''mermaid'' @ nl @ ''graph TD'' @ nl
        @ ''A --> B'')
     = ''# SUMMARY of docs'' @ nl @ ''```mermaid'' @ nl @ ''    graph TD'' @ nl
         @ ''    A --> B'' @ nl @ ''```''"
proof -
  let ?response = "''Intro'' @ nl @ ''# SUMMARY of docs'' @ nl @ ''mermaid'' @ nl @ ''graph TD''
                     @ nl @ ''A --> B''"
  have found: "occurs_in ''# SUMMARY'' ?response"
    by (simp add: py_in_iff [symmetric])
  have cleaned: "clean_model_response ?response
      = ''# SUMMARY of docs'' @ nl @ ''```mermaid'' @ nl @ ''    graph TD'' @ nl
          @ ''    A --> B'' @ nl @ ''```''"
    by code_simp
  from clean_model_response_keeps_heading [OF found] found cleaned show ?thesis by blast
qed


end
